theory Spec2Isabelle
  imports Main
begin

section \<open>JavaScript strings\<close>

text \<open>
  A JavaScript string is modelled as a \<^typ>\<open>string\<close>: every \<^typ>\<open>char\<close> stands for one
  UTF-16 code unit below \<open>0x100\<close>, so \<^const>\<open>length\<close> is the \<open>.length\<close> of the source.
  Among these code units \<open>String.prototype.trim\<close> strips TAB, LF, VT, FF, CR, SP and NBSP.
\<close>

definition js_whitespace :: "char \<Rightarrow> bool" where
  "js_whitespace c =
     (c = CHR 0x09 \<or> c = CHR 0x0A \<or> c = CHR 0x0B \<or> c = CHR 0x0C \<or> c = CHR 0x0D
      \<or> c = CHR 0x20 \<or> c = CHR 0xA0)"

definition trim :: "string \<Rightarrow> string" where
  "trim s = rev (dropWhile js_whitespace (rev (dropWhile js_whitespace s)))"

definition starts_with :: "string \<Rightarrow> string \<Rightarrow> bool" where
  "starts_with p s = (take (length p) s = p)"

definition ends_with :: "string \<Rightarrow> string \<Rightarrow> bool" where
  "ends_with p s = (length p \<le> length s \<and> drop (length s - length p) s = p)"

text \<open>\<open>s.includes(sub)\<close>: \<open>sub\<close> occurs in \<open>s\<close> as a contiguous substring.\<close>

fun includes_str :: "string \<Rightarrow> string \<Rightarrow> bool" where
  "includes_str [] sub = (sub = [])"
| "includes_str (c # cs) sub = (starts_with sub (c # cs) \<or> includes_str cs sub)"

text \<open>
  \<open>toLowerCase\<close> on code units below \<open>0x100\<close>: the letters A-Z and the Latin-1 capitals
  \<open>0xC0\<close>-\<open>0xDE\<close> (but not the multiplication sign \<open>0xD7\<close>) move up by \<open>0x20\<close>.
\<close>

definition lower_char :: "char \<Rightarrow> char" where
  "lower_char c =
     (let n = (of_char c :: nat) in
      if (65 \<le> n \<and> n \<le> 90) \<or> (192 \<le> n \<and> n \<le> 222 \<and> n \<noteq> 215)
      then char_of (n + 32) else c)"

definition toLowerCase :: "string \<Rightarrow> string" where
  "toLowerCase s = map lower_char s"

definition is_digit :: "char \<Rightarrow> bool" where
  "is_digit c = (48 \<le> (of_char c :: nat) \<and> (of_char c :: nat) \<le> 57)"

text \<open>The decimal digits of a natural number, as \<open>String(n)\<close> prints a small integer.\<close>

fun decimal :: "nat \<Rightarrow> string" where
  "decimal n =
     (if n < 10 then [char_of (48 + n)]
      else decimal (n div 10) @ [char_of (48 + n mod 10)])"

declare decimal.simps [simp del]

definition decimal_int :: "int \<Rightarrow> string" where
  "decimal_int i = (if i < 0 then CHR ''-'' # decimal (nat (- i)) else decimal (nat i))"

text \<open>The value of a string of decimal digits.\<close>

definition digits_value :: "string \<Rightarrow> nat" where
  "digits_value ds = foldl (\<lambda>acc c. 10 * acc + ((of_char c :: nat) - 48)) 0 ds"

section \<open>app/lib/limiter.js\<close>

subsection \<open>rateLimit\<close>

text \<open>
  The module-level \<open>buckets\<close> map is threaded through explicitly, and \<open>Date.now()\<close> is the
  argument \<open>now\<close> (milliseconds, an integer).
\<close>

record bucket =
  count :: int
  resetAt :: int

type_synonym buckets = "string \<rightharpoonup> bucket"

record rl_result =
  allowed :: bool
  remaining :: int
  r_resetAt :: int

definition rateLimit :: "buckets \<Rightarrow> int \<Rightarrow> string \<Rightarrow> int \<Rightarrow> int \<Rightarrow> rl_result \<times> buckets" where
  "rateLimit bs now key limit windowMs =
     (let b0 = (case bs key of Some b \<Rightarrow> b | None \<Rightarrow> \<lparr>count = 0, resetAt = now + windowMs\<rparr>);
          b1 = (if now > resetAt b0 then \<lparr>count = 0, resetAt = now + windowMs\<rparr> else b0);
          b2 = b1\<lparr>count := count b1 + 1\<rparr>
      in (\<lparr>allowed = (count b2 \<le> limit),
           remaining = max 0 (limit - count b2),
           r_resetAt = resetAt b2\<rparr>,
          bs(key \<mapsto> b2)))"

text \<open>Successive calls for one key, at the given times, with the same limit and window.\<close>

fun rateLimit_calls :: "buckets \<Rightarrow> string \<Rightarrow> int \<Rightarrow> int \<Rightarrow> int list \<Rightarrow> rl_result list \<times> buckets" where
  "rateLimit_calls bs key limit windowMs [] = ([], bs)"
| "rateLimit_calls bs key limit windowMs (t # ts) =
     (let (r, bs1) = rateLimit bs t key limit windowMs;
          (rs, bs2) = rateLimit_calls bs1 key limit windowMs ts
      in (r # rs, bs2))"

subsection \<open>validateDocsUrl\<close>

text \<open>
  The argument is an arbitrary value of a parsed request body; only its \<open>typeof\<close> and, for a
  string, its content are inspected.
\<close>

datatype js_value =
    JS_undefined | JS_null | JS_boolean bool | JS_number int | JS_string string | JS_object

text \<open>
  \<open>new URL(trimmed)\<close> is the platform's URL parser. It is a parameter of the model:
  \<open>url_protocol u\<close> is \<open>None\<close> when the constructor throws and otherwise the \<open>protocol\<close>
  property of the parsed URL. The result \<open>{ok: false, error}\<close> is \<open>Inl error\<close>, and
  \<open>{ok: true, value}\<close> is \<open>Inr value\<close>.
\<close>

definition validateDocsUrl :: "(string \<Rightarrow> string option) \<Rightarrow> js_value \<Rightarrow> string + string" where
  "validateDocsUrl url_protocol docsUrl =
     (case docsUrl of
        JS_string s \<Rightarrow>
          (let trimmed = trim s in
           if trimmed = [] then Inl ''docsUrl is required''
           else if length trimmed > 600 then Inl ''docsUrl is too long''
           else (case url_protocol trimmed of
                   None \<Rightarrow> Inl ''docsUrl must be a valid URL''
                 | Some p \<Rightarrow>
                     if \<not> (p = ''http:'' \<or> p = ''https:'')
                     then Inl ''docsUrl must start with http:// or https://''
                     else Inr trimmed))
      | _ \<Rightarrow> Inl ''docsUrl must be a string'')"

subsection \<open>getClientIp\<close>

text \<open>
  The two request headers the function reads; \<open>None\<close> is a header that is not there
  (\<open>headers.get\<close> returns \<open>null\<close>). An empty header value is falsy and is skipped.
\<close>

record request_headers =
  x_forwarded_for :: "string option"
  x_real_ip :: "string option"

definition getClientIp :: "request_headers \<Rightarrow> string" where
  "getClientIp h =
     (case x_forwarded_for h of
        Some (c # cs) \<Rightarrow> trim (takeWhile (\<lambda>x. x \<noteq> CHR '','') (c # cs))
      | _ \<Rightarrow>
          (case x_real_ip h of
             Some (c # cs) \<Rightarrow> trim (c # cs)
           | _ \<Rightarrow> ''unknown''))"

section \<open>JSON texts\<close>

text \<open>
  \<open>JSON.parse(text)\<close> throws exactly when \<open>text\<close> is not a JSON text. The grammar is
  recognised in two steps: a scanner cuts the text into tokens (punctuation, a string, or a
  scalar: a number or one of \<open>true\<close>, \<open>false\<close>, \<open>null\<close>), and a pushdown automaton checks
  that the tokens nest as values, arrays and objects. JSON whitespace is TAB, LF, CR and SP.
\<close>

definition is_hex_digit :: "char \<Rightarrow> bool" where
  "is_hex_digit c =
     (is_digit c \<or> (65 \<le> (of_char c :: nat) \<and> (of_char c :: nat) \<le> 70)
      \<or> (97 \<le> (of_char c :: nat) \<and> (of_char c :: nat) \<le> 102))"

definition json_whitespace :: "char \<Rightarrow> bool" where
  "json_whitespace c = (c = CHR 0x09 \<or> c = CHR 0x0A \<or> c = CHR 0x0D \<or> c = CHR 0x20)"

datatype json_token =
  T_lbrace | T_rbrace | T_lbracket | T_rbracket | T_comma | T_colon | T_string | T_scalar

fun scan_string :: "string \<Rightarrow> string option" where
  "scan_string [] = None"
| "scan_string (c # cs) =
     (if c = CHR 0x22 then Some cs
      else if c = CHR 0x5C then
        (case cs of
           [] \<Rightarrow> None
         | e # es \<Rightarrow>
             if e = CHR 0x22 \<or> e = CHR 0x5C \<or> e = CHR ''/'' \<or> e = CHR ''b'' \<or> e = CHR ''f''
                \<or> e = CHR ''n'' \<or> e = CHR ''r'' \<or> e = CHR ''t''
             then scan_string es
             else if e = CHR ''u'' \<and> 4 \<le> length es \<and> list_all is_hex_digit (take 4 es)
             then scan_string (drop 4 es)
             else None)
      else if (of_char c :: nat) < 0x20 then None
      else scan_string cs)"

definition scan_digits :: "string \<Rightarrow> string option" where
  "scan_digits s = (if takeWhile is_digit s = [] then None else Some (dropWhile is_digit s))"

definition scan_exponent :: "string \<Rightarrow> string option" where
  "scan_exponent s =
     (case s of
        [] \<Rightarrow> Some s
      | c # cs \<Rightarrow>
          if c = CHR ''e'' \<or> c = CHR ''E'' then
            (case cs of
               [] \<Rightarrow> None
             | d # ds \<Rightarrow> if d = CHR ''+'' \<or> d = CHR ''-'' then scan_digits ds else scan_digits cs)
          else Some s)"

definition scan_fraction :: "string \<Rightarrow> string option" where
  "scan_fraction s =
     (case s of
        [] \<Rightarrow> Some s
      | c # cs \<Rightarrow>
          if c = CHR ''.'' then
            (case scan_digits cs of None \<Rightarrow> None | Some r \<Rightarrow> scan_exponent r)
          else scan_exponent s)"

definition scan_number :: "string \<Rightarrow> string option" where
  "scan_number s =
     (let body = (case s of [] \<Rightarrow> [] | c # cs \<Rightarrow> if c = CHR ''-'' then cs else s) in
      case body of
        [] \<Rightarrow> None
      | d # ds \<Rightarrow>
          if d = CHR ''0'' then scan_fraction ds
          else if is_digit d then scan_fraction (dropWhile is_digit ds)
          else None)"


lemma scan_string_length: "scan_string s = Some r \<Longrightarrow> length r < length s"
  by (induction s arbitrary: r rule: scan_string.induct)
     (fastforce split: if_splits list.splits)+

lemma scan_digits_length: "scan_digits s = Some r \<Longrightarrow> length r \<le> length s"
  by (auto simp: scan_digits_def length_dropWhile_le split: if_splits)

lemma scan_exponent_length: "scan_exponent s = Some r \<Longrightarrow> length r \<le> length s"
  by (auto simp: scan_exponent_def split: list.splits if_splits dest!: scan_digits_length)

lemma scan_fraction_length: "scan_fraction s = Some r \<Longrightarrow> length r \<le> length s"
  by (auto simp: scan_fraction_def split: list.splits if_splits option.splits
      dest!: scan_digits_length scan_exponent_length)

lemma scan_fraction_dropWhile_length:
  "scan_fraction (dropWhile is_digit ds) = Some r \<Longrightarrow> length r \<le> length ds"
  using scan_fraction_length [of "dropWhile is_digit ds" r] length_dropWhile_le [of is_digit ds]
  by simp

lemma scan_number_length: "scan_number s = Some r \<Longrightarrow> length r < length s"
  by (auto simp: scan_number_def Let_def split: list.splits if_splits
      dest!: scan_fraction_length scan_fraction_dropWhile_length)

function json_lex :: "string \<Rightarrow> json_token list option" where
  "json_lex [] = Some []"
| "json_lex (c # cs) =
     (if json_whitespace c then json_lex cs
      else if c = CHR ''{'' then map_option (Cons T_lbrace) (json_lex cs)
      else if c = CHR ''}'' then map_option (Cons T_rbrace) (json_lex cs)
      else if c = CHR ''['' then map_option (Cons T_lbracket) (json_lex cs)
      else if c = CHR '']'' then map_option (Cons T_rbracket) (json_lex cs)
      else if c = CHR '','' then map_option (Cons T_comma) (json_lex cs)
      else if c = CHR '':'' then map_option (Cons T_colon) (json_lex cs)
      else if c = CHR 0x22 then
        (case scan_string cs of
           None \<Rightarrow> None
         | Some r \<Rightarrow> map_option (Cons T_string) (json_lex r))
      else if c = CHR ''-'' \<or> is_digit c then
        (case scan_number (c # cs) of
           None \<Rightarrow> None
         | Some r \<Rightarrow> map_option (Cons T_scalar) (json_lex r))
      else if take 4 (c # cs) = ''true'' then map_option (Cons T_scalar) (json_lex (drop 3 cs))
      else if take 5 (c # cs) = ''false'' then map_option (Cons T_scalar) (json_lex (drop 4 cs))
      else if take 4 (c # cs) = ''null'' then map_option (Cons T_scalar) (json_lex (drop 3 cs))
      else None)"
  by pat_completeness auto
termination
proof (relation "measure length", goal_cases)
  case (9 c cs r)
  then show ?case
    using scan_string_length [of cs r] by simp
next
  case (10 c cs r)
  then show ?case
    using scan_number_length [of "c # cs" r] by simp
qed simp_all

datatype json_state =
  Expect_value | Array_start | Object_start | Expect_key | Expect_colon | After_value

datatype json_container = In_array | In_object

type_synonym json_config = "json_state \<times> json_container list"

definition begin_value :: "json_token \<Rightarrow> json_container list \<Rightarrow> json_config option" where
  "begin_value t stack =
     (case t of
        T_scalar \<Rightarrow> Some (After_value, stack)
      | T_string \<Rightarrow> Some (After_value, stack)
      | T_lbracket \<Rightarrow> Some (Array_start, In_array # stack)
      | T_lbrace \<Rightarrow> Some (Object_start, In_object # stack)
      | _ \<Rightarrow> None)"

fun json_step :: "json_config \<Rightarrow> json_token \<Rightarrow> json_config option" where
  "json_step (Expect_value, stack) t = begin_value t stack"
| "json_step (Array_start, stack) t =
     (if t = T_rbracket then Some (After_value, tl stack) else begin_value t stack)"
| "json_step (Object_start, stack) t =
     (if t = T_rbrace then Some (After_value, tl stack)
      else if t = T_string then Some (Expect_colon, stack)
      else None)"
| "json_step (Expect_key, stack) t = (if t = T_string then Some (Expect_colon, stack) else None)"
| "json_step (Expect_colon, stack) t = (if t = T_colon then Some (Expect_value, stack) else None)"
| "json_step (After_value, []) t = None"
| "json_step (After_value, In_array # rest) t =
     (if t = T_comma then Some (Expect_value, In_array # rest)
      else if t = T_rbracket then Some (After_value, rest)
      else None)"
| "json_step (After_value, In_object # rest) t =
     (if t = T_comma then Some (Expect_key, In_object # rest)
      else if t = T_rbrace then Some (After_value, rest)
      else None)"

fun json_run :: "json_config \<Rightarrow> json_token list \<Rightarrow> json_config option" where
  "json_run c [] = Some c"
| "json_run c (t # ts) = (case json_step c t of None \<Rightarrow> None | Some c' \<Rightarrow> json_run c' ts)"

definition json_valid :: "string \<Rightarrow> bool" where
  "json_valid s =
     (case json_lex s of
        None \<Rightarrow> False
      | Some ts \<Rightarrow> json_run (Expect_value, []) ts = Some (After_value, []))"

section \<open>app/api/run/route.js\<close>

subsection \<open>Limits and runtimes\<close>

definition MAX_CODE_CHARS :: nat where "MAX_CODE_CHARS = 40000"
definition MAX_INPUT_CHARS :: nat where "MAX_INPUT_CHARS = 4000"
definition MAX_CASES_RUN :: nat where "MAX_CASES_RUN = 12"
definition MAX_STDOUT_CHARS :: nat where "MAX_STDOUT_CHARS = 8000"

record runtime =
  rt_language :: string
  rt_version :: string

text \<open>\<open>lang\<close> is \<open>None\<close> when the request names no language.\<close>

definition mapLanguage :: "string option \<Rightarrow> runtime" where
  "mapLanguage lang =
     (let l = toLowerCase (case lang of None \<Rightarrow> [] | Some s \<Rightarrow> s) in
      if l = ''javascript'' then \<lparr>rt_language = ''javascript'', rt_version = ''18.15.0''\<rparr>
      else if l = ''typescript'' then \<lparr>rt_language = ''typescript'', rt_version = ''5.0.3''\<rparr>
      else if l = ''python'' then \<lparr>rt_language = ''python'', rt_version = ''3.10.0''\<rparr>
      else \<lparr>rt_language = ''javascript'', rt_version = ''18.15.0''\<rparr>)"

subsection \<open>normalizeOutput\<close>

definition looksJsonLike :: "string \<Rightarrow> bool" where
  "looksJsonLike s =
     (let t = trim s in
      (starts_with ''{'' t \<and> ends_with ''}'' t)
      \<or> (starts_with ''['' t \<and> ends_with '']'' t)
      \<or> (starts_with [CHR 0x22] t \<and> ends_with [CHR 0x22] t))"

text \<open>The pattern \<open>/^-?\d+(\.\d+)?$/\<close>.\<close>

definition numeric_pattern :: "string \<Rightarrow> bool" where
  "numeric_pattern raw =
     (let body = (if starts_with ''-'' raw then tl raw else raw);
          ip = takeWhile is_digit body;
          rest = dropWhile is_digit body
      in ip \<noteq> [] \<and>
         (rest = [] \<or> (starts_with ''.'' rest \<and> tl rest \<noteq> [] \<and> list_all is_digit (tl rest))))"

text \<open>
  Two built-ins of the JavaScript platform are parameters of the model.

  \<^item> \<open>Number_toString raw\<close> is \<open>String(Number(raw))\<close> for a decimal literal \<open>raw\<close>: the literal
    is rounded to an IEEE-754 double and the double is printed with the fewest digits that
    read back as the same double.
  \<^item> \<open>JSON_reserialize raw\<close> is \<open>JSON.stringify(JSON.parse(raw))\<close> for a JSON text \<open>raw\<close>:
    the compact serialisation of the parsed value.
\<close>

record js_platform =
  Number_toString :: "string \<Rightarrow> string"
  JSON_reserialize :: "string \<Rightarrow> string"

text \<open>
  \<open>String(Number(raw))\<close> for a string that matches the numeric pattern. A literal whose
  fraction digits are all zero and whose integer part is below \<open>2^53\<close> denotes an integer
  that a double holds exactly, and such an integer prints as its decimal digits (and \<open>-0\<close>
  as \<open>0\<close>). Every other literal is left to the platform.
\<close>

definition unsigned_part :: "string \<Rightarrow> string" where
  "unsigned_part raw = (if starts_with ''-'' raw then tl raw else raw)"

definition integer_value :: "string \<Rightarrow> nat" where
  "integer_value raw = digits_value (takeWhile is_digit (unsigned_part raw))"

definition fraction_digits :: "string \<Rightarrow> string" where
  "fraction_digits raw =
     drop (Suc (length (takeWhile is_digit (unsigned_part raw)))) (unsigned_part raw)"

definition exact_integer :: "string \<Rightarrow> bool" where
  "exact_integer raw =
     (list_all (\<lambda>c. c = CHR ''0'') (fraction_digits raw) \<and> integer_value raw < 2 ^ 53)"

definition String_Number :: "js_platform \<Rightarrow> string \<Rightarrow> string" where
  "String_Number P raw =
     (if exact_integer raw
      then (if starts_with ''-'' raw \<and> integer_value raw \<noteq> 0
            then CHR ''-'' # decimal (integer_value raw)
            else decimal (integer_value raw))
      else Number_toString P raw)"

text \<open>
  The argument is a string at both call sites, so \<open>String(value ?? "")\<close> is the argument.
  A string that matches the numeric pattern is not empty and is a decimal literal, whose
  Number is never NaN: the pattern alone decides the numeric branch. \<open>JSON.parse\<close> throws
  exactly on a string that is not a JSON text.
\<close>

definition normalizeOutput :: "js_platform \<Rightarrow> string \<Rightarrow> string" where
  "normalizeOutput P v =
     (let raw = trim v in
      if raw = ''null'' then ''null''
      else if raw = ''true'' then ''true''
      else if raw = ''false'' then ''false''
      else if raw \<noteq> [] \<and> numeric_pattern raw then String_Number P raw
      else if looksJsonLike raw then (if json_valid raw then JSON_reserialize P raw else raw)
      else raw)"

subsection \<open>Harness programs and the sandbox\<close>

text \<open>
  The text of a harness is not modelled: a program is the harness chosen and its three
  arguments \<open>userCode\<close>, \<open>inputJsonString\<close> and \<open>functionName\<close>.
\<close>

datatype program =
    jsHarness string string string
  | tsHarness string string string
  | pyHarness string string string

text \<open>
  \<open>runOnPiston\<close> either throws (the message is kept) or returns the parsed reply of the
  sandbox, of which the handler reads \<open>run.stdout\<close>, \<open>run.stderr\<close> and \<open>run.code\<close>; each may
  be absent (\<open>None\<close>), and all three are when the reply has no \<open>run\<close>. The sandbox is an
  oracle: given the index of the case and the call, it answers with the outcome and the
  milliseconds that passed (\<open>Date.now() - caseStart\<close>).
\<close>

record piston_run =
  run_stdout :: "string option"
  run_stderr :: "string option"
  run_code :: "int option"

datatype sandbox_outcome = Sandbox_threw string | Sandbox_returned piston_run

type_synonym sandbox = "nat \<Rightarrow> runtime \<Rightarrow> program \<Rightarrow> sandbox_outcome \<times> int"

subsection \<open>Requests and responses\<close>

text \<open>
  A test case as it arrives: a field is \<open>None\<close> when it is absent or \<open>null\<close>, and a string
  otherwise. An element of a case list is \<open>None\<close> when it is \<open>null\<close>.
\<close>

record test_case =
  tc_name :: "string option"
  tc_input :: "string option"
  tc_expectedOutput :: "string option"

text \<open>
  The parsed body. \<open>rq_code\<close> is any value; \<open>rq_functionName\<close> and \<open>rq_mode\<close> are \<open>None\<close>
  when absent (the destructuring defaults apply); a case list that is absent or not an
  array is the empty list.
\<close>

record run_body =
  rq_code :: js_value
  rq_language :: "string option"
  rq_functionName :: "string option"
  rq_testCases :: "test_case option list"
  rq_hiddenTestCases :: "test_case option list"
  rq_mode :: "string option"

text \<open>\<open>rq_body\<close> is \<open>None\<close> when \<open>req.json()\<close> rejects.\<close>

record run_request =
  rq_headers :: request_headers
  rq_body :: "run_body option"

record run_result =
  name :: string
  passed :: bool
  expectedOutput :: string
  actualOutput :: string
  stderr :: string
  exitCode :: int
  runtimeMs :: int
  hidden :: bool

record run_summary =
  mode :: string
  passedCount :: nat
  total' :: nat
  allPassed :: bool
  totalRuntimeMs :: int
  results :: "run_result list"

text \<open>
  A response is an error (status, message, and the \<open>Retry-After\<close> header of a 429) or the
  200 summary.
\<close>

datatype run_response = Run_error nat string "string option" | Run_ok run_summary

subsection \<open>The loop over the cases\<close>

text \<open>What the loop reads but does not change.\<close>

record run_env =
  env_platform :: js_platform
  env_sandbox :: sandbox
  env_code :: string
  env_functionName :: string
  env_mode :: string
  env_visible :: "test_case option list"
  env_casesToRun :: "test_case option list"
  env_runtime :: runtime

text \<open>What the loop changes: the results, the pass count, and the calls made to the sandbox.\<close>

record run_state =
  st_results :: "run_result list"
  st_passedCount :: nat
  st_calls :: "(nat \<times> runtime \<times> program) list"

definition undefined_case :: test_case where
  "undefined_case = \<lparr>tc_name = None, tc_input = None, tc_expectedOutput = None\<rparr>"

definition truncate_stdout :: "string \<Rightarrow> string" where
  "truncate_stdout out =
     (if length out > MAX_STDOUT_CHARS
      then take MAX_STDOUT_CHARS out @ CHR 0x0A # ''...[truncated]''
      else out)"

text \<open>
  The constants at the head of the loop body, for index \<open>i\<close> below the number of cases:
  \<open>tc\<close>, \<open>name\<close>, \<open>input\<close>, \<open>expectedOutput\<close>, the \<open>hidden\<close> flag of the result, and the
  harness \<open>program\<close>.
\<close>

definition case_tc :: "run_env \<Rightarrow> nat \<Rightarrow> test_case" where
  "case_tc e i = (case env_casesToRun e ! i of None \<Rightarrow> undefined_case | Some t \<Rightarrow> t)"

definition case_name :: "run_env \<Rightarrow> nat \<Rightarrow> string" where
  "case_name e i =
     (case tc_name (case_tc e i) of None \<Rightarrow> ''Case '' @ decimal (i + 1) | Some s \<Rightarrow> s)"

definition case_input :: "run_env \<Rightarrow> nat \<Rightarrow> string" where
  "case_input e i = (case tc_input (case_tc e i) of None \<Rightarrow> ''null'' | Some s \<Rightarrow> s)"

definition case_expectedOutput :: "run_env \<Rightarrow> nat \<Rightarrow> string" where
  "case_expectedOutput e i =
     (case tc_expectedOutput (case_tc e i) of None \<Rightarrow> [] | Some s \<Rightarrow> s)"

definition case_hidden :: "run_env \<Rightarrow> nat \<Rightarrow> bool" where
  "case_hidden e i = (env_mode e = ''submit'' \<and> i \<ge> length (env_visible e))"

definition case_program :: "run_env \<Rightarrow> nat \<Rightarrow> program" where
  "case_program e i =
     (if rt_language (env_runtime e) = ''javascript''
      then jsHarness (env_code e) (case_input e i) (env_functionName e)
      else if rt_language (env_runtime e) = ''typescript''
      then tsHarness (env_code e) (case_input e i) (env_functionName e)
      else pyHarness (env_code e) (case_input e i) (env_functionName e))"

text \<open>One iteration of the loop body.\<close>

definition run_case :: "run_env \<Rightarrow> nat \<Rightarrow> run_state \<Rightarrow> run_state" where
  "run_case e i st =
     (if length (case_input e i) > MAX_INPUT_CHARS then
        st\<lparr>st_results := st_results st @
             [\<lparr>name = case_name e i, passed = False,
               expectedOutput = case_expectedOutput e i, actualOutput = [],
               stderr = ''Input too large.'', exitCode = 1, runtimeMs = 0,
               hidden = case_hidden e i\<rparr>]\<rparr>
      else if \<not> json_valid (case_input e i) then
        st\<lparr>st_results := st_results st @
             [\<lparr>name = case_name e i, passed = False,
               expectedOutput = case_expectedOutput e i, actualOutput = [],
               stderr = ''Testcase input is not valid JSON.'', exitCode = 1, runtimeMs = 0,
               hidden = case_hidden e i\<rparr>]\<rparr>
      else
        (let (outcome, elapsed) = env_sandbox e i (env_runtime e) (case_program e i);
             st1 = st\<lparr>st_calls := st_calls st @ [(i, env_runtime e, case_program e i)]\<rparr>
         in
         case outcome of
           Sandbox_threw msg \<Rightarrow>
             st1\<lparr>st_results := st_results st1 @
                  [\<lparr>name = case_name e i, passed = False,
                    expectedOutput = case_expectedOutput e i, actualOutput = [],
                    stderr = msg, exitCode = 1, runtimeMs = elapsed,
                    hidden = case_hidden e i\<rparr>]\<rparr>
         | Sandbox_returned r \<Rightarrow>
             (let out = truncate_stdout
                          (trim (case run_stdout r of None \<Rightarrow> [] | Some s \<Rightarrow> s));
                  err = trim (case run_stderr r of None \<Rightarrow> [] | Some s \<Rightarrow> s);
                  ec = (case run_code r of None \<Rightarrow> 0 | Some c \<Rightarrow> c);
                  actualNorm = normalizeOutput (env_platform e) out;
                  expectedNorm = normalizeOutput (env_platform e) (case_expectedOutput e i);
                  ok = (ec = 0 \<and> actualNorm = expectedNorm)
              in st1\<lparr>st_results := st_results st1 @
                       [\<lparr>name = case_name e i, passed = ok,
                         expectedOutput = case_expectedOutput e i, actualOutput = out,
                         stderr = err, exitCode = ec, runtimeMs = elapsed,
                         hidden = case_hidden e i\<rparr>],
                      st_passedCount := (if ok then st_passedCount st1 + 1
                                         else st_passedCount st1)\<rparr>)))"

text \<open>\<open>for (let i = 0; i < Math.min(casesToRun.length, MAX_CASES_RUN); i++)\<close>, from \<open>i\<close> on.\<close>

function run_loop :: "run_env \<Rightarrow> nat \<Rightarrow> run_state \<Rightarrow> run_state" where
  "run_loop e i st =
     (if i < min (length (env_casesToRun e)) MAX_CASES_RUN
      then run_loop e (Suc i) (run_case e i st)
      else st)"
  by pat_completeness auto
termination
  by (relation "measure (\<lambda>(e, i, st). min (length (env_casesToRun e)) MAX_CASES_RUN - i)") auto

declare run_loop.simps [simp del]

subsection \<open>POST\<close>

text \<open>
  The handler, with what it reads from outside as arguments: the limiter's buckets, the
  clock at the limiter's call (\<open>now\<close>) and at the computation of \<open>Retry-After\<close> (\<open>now'\<close>),
  the milliseconds the whole loop took (\<open>elapsed_total\<close>), the platform and the sandbox.
  It returns the response, the buckets, and the calls made to the sandbox.
\<close>

definition retry_after :: "int \<Rightarrow> int \<Rightarrow> string" where
  "retry_after reset now' = decimal_int (- ((- (reset - now')) div 1000))"

definition run_env_of :: "js_platform \<Rightarrow> sandbox \<Rightarrow> string \<Rightarrow> run_body \<Rightarrow> run_env" where
  "run_env_of P sb code body =
     (let functionName = (case rq_functionName body of None \<Rightarrow> ''solve'' | Some f \<Rightarrow> f);
          md = (case rq_mode body of None \<Rightarrow> ''run'' | Some m \<Rightarrow> m);
          visible = rq_testCases body;
          hidden_cases = rq_hiddenTestCases body;
          casesToRun = (if md = ''submit'' then visible @ hidden_cases else visible)
      in \<lparr>env_platform = P, env_sandbox = sb, env_code = code,
          env_functionName = functionName, env_mode = md,
          env_visible = visible, env_casesToRun = casesToRun,
          env_runtime = mapLanguage (rq_language body)\<rparr>)"

definition POST :: "js_platform \<Rightarrow> sandbox \<Rightarrow> buckets \<Rightarrow> int \<Rightarrow> int \<Rightarrow> int \<Rightarrow> run_request
    \<Rightarrow> run_response \<times> buckets \<times> (nat \<times> runtime \<times> program) list" where
  "POST P sb bs now now' elapsed_total req =
     (let ip = getClientIp (rq_headers req);
          (rl, bs') = rateLimit bs now (''run:'' @ ip) 30 (5 * 60 * 1000)
      in
      if \<not> allowed rl then
        (Run_error 429 ''Too many run requests. Try again later.''
           (Some (retry_after (r_resetAt rl) now')), bs', [])
      else
        (case rq_body req of
           None \<Rightarrow> (Run_error 500 ''Server error running code'' None, bs', [])
         | Some body \<Rightarrow>
             (case rq_code body of
                JS_string code \<Rightarrow>
                  if code = [] then (Run_error 400 ''code is required'' None, bs', [])
                  else if length code > MAX_CODE_CHARS
                  then (Run_error 400 ''Code is too long'' None, bs', [])
                  else
                    (let e = run_env_of P sb code body in
                     if length (env_casesToRun e) = 0
                     then (Run_error 400 ''testCases are required'' None, bs', [])
                     else
                       (let st = run_loop e 0
                                   \<lparr>st_results = [], st_passedCount = 0, st_calls = []\<rparr>
                        in (Run_ok \<lparr>mode = env_mode e,
                                    passedCount = st_passedCount st,
                                    total' = length (st_results st),
                                    allPassed = (st_passedCount st = length (st_results st)),
                                    totalRuntimeMs = elapsed_total,
                                    results = st_results st\<rparr>,
                            bs', st_calls st)))
              | _ \<Rightarrow> (Run_error 400 ''code is required'' None, bs', []))))"

section \<open>app/api/generate-questions/route.js\<close>

subsection \<open>Language and starter code\<close>

definition normalizeLanguage :: "string option \<Rightarrow> string" where
  "normalizeLanguage lang =
     (let l = toLowerCase (case lang of None \<Rightarrow> [] | Some s \<Rightarrow> s) in
      if l = ''python'' then ''python''
      else if l = ''typescript'' then ''typescript''
      else ''javascript'')"

text \<open>A template literal, line by line: every line ends with a line feed.\<close>

definition text_lines :: "string list \<Rightarrow> string" where
  "text_lines ls = concat (map (\<lambda>l. l @ [CHR 0x0A]) ls)"

definition starterTemplate :: "string \<Rightarrow> string" where
  \<open>starterTemplate lang =
     (if lang = ''python'' then
        text_lines
          [''def solve(input):'',
           ''    """'',
           ''    input: parsed JSON value (number/string/list/dict/etc)'',
           ''    return: value that matches expectedOutput'',
           ''    """'',
           ''    # TODO: implement'',
           ''    return None'']
      else if lang = ''typescript'' then
        text_lines
          [''export function solve(input: unknown): unknown {'',
           ''  // input: parsed JSON value'',
           ''  // return: value that matches expectedOutput'',
           ''  return null;'',
           ''}'']
      else
        text_lines
          [''export function solve(input) {'',
           ''  // input: parsed JSON value'',
           ''  // return: value that matches expectedOutput'',
           ''  return null;'',
           ''}''])\<close>

text \<open>
  A field of the model's reply is \<open>None\<close> when it is absent or \<open>null\<close> and a string
  otherwise; \<open>String(starterCode || "")\<close> is the empty string for \<open>None\<close>.
\<close>

definition starterLooksOk :: "string option \<Rightarrow> string \<Rightarrow> bool" where
  "starterLooksOk starterCode lang =
     (let sc = (case starterCode of None \<Rightarrow> [] | Some s \<Rightarrow> s);
          looksPy = includes_str sc ''def solve'';
          looksJS = (includes_str sc ''export function solve'' \<or> includes_str sc ''function solve'')
      in if lang = ''python'' then looksPy else looksJS)"

subsection \<open>Hints\<close>

definition filler :: "string list" where
  "filler =
     [''Start by carefully matching the input JSON shape to the variables you need.'',
      ''Write the rule as a small helper step (even mentally), then apply it to all required parts.'',
      ''Test your logic on the provided example by hand and confirm it matches the expected output.'']"

text \<open>
  \<open>Boolean\<close> and \<open>String\<close> on an entry of the hints array: \<open>null\<close> and the empty string are
  falsy.
\<close>

definition Boolean_of :: "string option \<Rightarrow> bool" where
  "Boolean_of v = (case v of None \<Rightarrow> False | Some s \<Rightarrow> s \<noteq> [])"

definition String_of :: "string option \<Rightarrow> string" where
  "String_of v = (case v of None \<Rightarrow> ''null'' | Some s \<Rightarrow> s)"

text \<open>The \<open>while (trimmed.length < 3)\<close> loop, with its counter \<open>i\<close>.\<close>

function pad_hints :: "string list \<Rightarrow> nat \<Rightarrow> string list" where
  "pad_hints trimmed i =
     (if length trimmed < 3
      then pad_hints
             (trimmed @ [if i < length filler then filler ! i else filler ! (length filler - 1)])
             (i + 1)
      else trimmed)"
  by pat_completeness auto
termination
  by (relation "measure (\<lambda>(trimmed, i). 3 - length trimmed)") auto

declare pad_hints.simps [simp del]

text \<open>\<open>hints\<close> is \<open>None\<close> when the field is not an array.\<close>

definition ensureExactlyThreeHints :: "string option list option \<Rightarrow> string list" where
  "ensureExactlyThreeHints hs =
     (let base = (case hs of None \<Rightarrow> [] | Some xs \<Rightarrow> map String_of (filter Boolean_of xs));
          trimmed = take 3 base
      in pad_hints trimmed 0)"

subsection \<open>Coercions and test cases\<close>

definition coerceString :: "string option \<Rightarrow> string \<Rightarrow> string" where
  "coerceString val fallback = (case val of None \<Rightarrow> fallback | Some s \<Rightarrow> s)"

definition coerceDifficulty :: "string option \<Rightarrow> string \<Rightarrow> string" where
  "coerceDifficulty val fallback =
     (let d = trim (toLowerCase (case val of None \<Rightarrow> [] | Some s \<Rightarrow> s)) in
      if d = ''beginner'' \<or> d = ''intermediate'' \<or> d = ''advanced'' then d else fallback)"

record raw_case =
  rc_name :: "string option"
  rc_input :: "string option"
  rc_expectedOutput :: "string option"
  rc_explanation :: "string option"

record sanitized_case =
  sc_name :: string
  sc_input :: string
  sc_expectedOutput :: string
  sc_explanation :: string

text \<open>\<open>tc\<close> is \<open>None\<close> when the array element is \<open>null\<close>.\<close>

definition sanitizeCase :: "raw_case option \<Rightarrow> string \<Rightarrow> sanitized_case" where
  "sanitizeCase tc fallbackName =
     (let t = (case tc of
                 None \<Rightarrow> \<lparr>rc_name = None, rc_input = None, rc_expectedOutput = None,
                           rc_explanation = None\<rparr>
               | Some x \<Rightarrow> x)
      in \<lparr>sc_name = coerceString (rc_name t) fallbackName,
          sc_input = coerceString (rc_input t) ''null'',
          sc_expectedOutput = coerceString (rc_expectedOutput t) ''null'',
          sc_explanation = coerceString (rc_explanation t) []\<rparr>)"

text \<open>The two \<open>while\<close> loops that pad the visible cases to 2 and the hidden cases to 3.\<close>

function pad_testCases :: "sanitized_case list \<Rightarrow> sanitized_case list" where
  "pad_testCases cs =
     (if length cs < 2
      then pad_testCases
             (cs @ [sanitizeCase
                      (Some \<lparr>rc_name = Some (''Case '' @ decimal (length cs + 1)),
                             rc_input = Some ''null'', rc_expectedOutput = Some ''null'',
                             rc_explanation = Some ''Basic sanity check.''\<rparr>)
                      (''Case '' @ decimal (length cs + 1))])
      else cs)"
  by pat_completeness auto
termination
  by (relation "measure (\<lambda>cs. 2 - length cs)") auto

declare pad_testCases.simps [simp del]

function pad_hiddenTestCases :: "sanitized_case list \<Rightarrow> sanitized_case list" where
  "pad_hiddenTestCases cs =
     (if length cs < 3
      then pad_hiddenTestCases
             (cs @ [sanitizeCase
                      (Some \<lparr>rc_name = Some (''Hidden '' @ decimal (length cs + 1)),
                             rc_input = Some ''null'', rc_expectedOutput = Some ''null'',
                             rc_explanation = Some ''Hidden sanity check / edge coverage.''\<rparr>)
                      (''Hidden '' @ decimal (length cs + 1))])
      else cs)"
  by pat_completeness auto
termination
  by (relation "measure (\<lambda>cs. 3 - length cs)") auto

declare pad_hiddenTestCases.simps [simp del]

subsection \<open>Normalising a question\<close>

text \<open>
  A question as the model returned it. A string field is \<open>None\<close> when absent or \<open>null\<close>;
  an array field is \<open>None\<close> when it is not an array.
\<close>

record raw_question =
  q_title :: "string option"
  q_concept :: "string option"
  q_question :: "string option"
  q_functionName :: "string option"
  q_starterCode :: "string option"
  q_instructions :: "string option"
  q_hints :: "string option list option"
  q_difficulty :: "string option"
  q_testCases :: "raw_case option list option"
  q_hiddenTestCases :: "raw_case option list option"

record normalized_question =
  title :: string
  concept :: string
  question :: string
  functionName :: string
  starterCode :: string
  instructions :: string
  hints :: "string list"
  difficulty :: string
  testCases :: "sanitized_case list"
  hiddenTestCases :: "sanitized_case list"

definition undefined_question :: raw_question where
  "undefined_question =
     \<lparr>q_title = None, q_concept = None, q_question = None, q_functionName = None,
      q_starterCode = None, q_instructions = None, q_hints = None, q_difficulty = None,
      q_testCases = None, q_hiddenTestCases = None\<rparr>"

text \<open>
  The callback of \<open>payload.questions.slice(0, 5).map((q, idx) => ...)\<close>; \<open>q\<close> is \<open>None\<close>
  when the element is \<open>null\<close>.
\<close>

definition normalize_question :: "string \<Rightarrow> nat \<Rightarrow> raw_question option \<Rightarrow> normalized_question" where
  "normalize_question lang idx q =
     (let qq = (case q of None \<Rightarrow> undefined_question | Some x \<Rightarrow> x);
          tcs = (case q_testCases qq of None \<Rightarrow> [] | Some xs \<Rightarrow> xs);
          hcs = (case q_hiddenTestCases qq of None \<Rightarrow> [] | Some xs \<Rightarrow> xs)
      in \<lparr>title = coerceString (q_title qq) (''Challenge '' @ decimal (idx + 1)),
          concept = coerceString (q_concept qq)
                      ''You will learn how to apply the documented concept.'',
          question = coerceString (q_question qq) [],
          functionName = ''solve'',
          starterCode = (if \<not> starterLooksOk (q_starterCode qq) lang then starterTemplate lang
                         else coerceString (q_starterCode qq) (starterTemplate lang)),
          instructions = coerceString (q_instructions qq) [],
          hints = ensureExactlyThreeHints (q_hints qq),
          difficulty = coerceDifficulty (q_difficulty qq) ''beginner'',
          testCases = pad_testCases
            (map (\<lambda>(i, tc). sanitizeCase tc (''Case '' @ decimal (i + 1)))
               (enumerate 0 (take 3 tcs))),
          hiddenTestCases = pad_hiddenTestCases
            (map (\<lambda>(i, tc). sanitizeCase tc (''Hidden '' @ decimal (i + 1)))
               (enumerate 0 (take 6 hcs)))\<rparr>)"

subsection \<open>POST\<close>

text \<open>
  The body of a generation request; \<open>None\<close> for the whole body when \<open>req.json()\<close> rejects or
  the body is \<open>null\<close>.
\<close>

record generate_body =
  g_docsUrl :: js_value
  g_language :: "string option"

record generate_request =
  g_headers :: request_headers
  g_body :: "generate_body option"

text \<open>
  The model call with the parse of its reply: the call throws, the reply has no content, the
  content is not JSON, the JSON has no \<open>questions\<close> array, or it has one. The model is an
  oracle, asked with the validated URL and the language that the prompt embeds.
\<close>

datatype model_reply =
    Model_threw
  | No_content
  | Invalid_json
  | Missing_questions
  | Questions "raw_question option list"

datatype generate_response =
    Generate_error nat string "string option"
  | Generate_ok "normalized_question list"

definition POST_generate :: "(string \<Rightarrow> string option) \<Rightarrow> (string \<Rightarrow> string \<Rightarrow> model_reply)
    \<Rightarrow> buckets \<Rightarrow> int \<Rightarrow> int \<Rightarrow> generate_request \<Rightarrow> generate_response \<times> buckets" where
  "POST_generate url_protocol model bs now now' req =
     (let ip = getClientIp (g_headers req);
          (rl, bs') = rateLimit bs now (''gen:'' @ ip) 10 (5 * 60 * 1000)
      in
      if \<not> allowed rl then
        (Generate_error 429 ''Too many generate requests. Try again later.''
           (Some (retry_after (r_resetAt rl) now')), bs')
      else
        (case g_body req of
           None \<Rightarrow> (Generate_error 500 ''Server error generating questions'' None, bs')
         | Some body \<Rightarrow>
             (case validateDocsUrl url_protocol (g_docsUrl body) of
                Inl err \<Rightarrow> (Generate_error 400 err None, bs')
              | Inr v \<Rightarrow>
                  (let lang = normalizeLanguage (g_language body) in
                   case model v lang of
                     Model_threw \<Rightarrow>
                       (Generate_error 500 ''Server error generating questions'' None, bs')
                   | No_content \<Rightarrow>
                       (Generate_error 500 ''No content returned from model'' None, bs')
                   | Invalid_json \<Rightarrow>
                       (Generate_error 500 ''Model returned invalid JSON'' None, bs')
                   | Missing_questions \<Rightarrow>
                       (Generate_error 500 ''Model response missing 'questions' array'' None, bs')
                   | Questions qs \<Rightarrow>
                       (Generate_ok
                          (map (\<lambda>(idx, q). normalize_question lang idx q)
                             (enumerate 0 (take 5 qs))), bs')))))"

section \<open>The editor page\<close>

text \<open>
  Both layouts of the page define \<open>defaultStarter\<close>, \<open>starterMatchesLanguage\<close> and the
  effect that resets the editor in the same way.
\<close>

definition defaultStarter :: "string \<Rightarrow> string" where
  \<open>defaultStarter lang =
     (if lang = ''python'' then
        text_lines
          [''def solve(input):'',
           ''    """'',
           ''    input: parsed JSON value (number/string/list/dict/etc)'',
           ''    return: value that matches expectedOutput'',
           ''    """'',
           ''    # TODO: implement'',
           ''    return None'']
      else if lang = ''typescript'' then
        text_lines
          [''export function solve(input: unknown): unknown {'',
           ''  // input: parsed JSON value'',
           ''  // return: value that matches expectedOutput'',
           ''  return null;'',
           ''}'']
      else
        text_lines
          [''export function solve(input) {'',
           ''  // input: parsed JSON value'',
           ''  // return: value that matches expectedOutput'',
           ''  return null;'',
           ''}''])\<close>

definition starterMatchesLanguage :: "string \<Rightarrow> string \<Rightarrow> bool" where
  "starterMatchesLanguage starter lang =
     (let sc = starter;
          looksPy = includes_str sc ''def solve'';
          looksJS = (includes_str sc ''export function solve'' \<or> includes_str sc ''function solve'')
      in if lang = ''python'' then looksPy else looksJS)"

text \<open>
  The effect on \<open>[currentQuestion, language]\<close>: the new editor text, given the text before.
  \<open>currentQuestion\<close> is \<open>None\<close> when no exercise is selected, and otherwise its
  \<open>starterCode\<close> (\<open>None\<close> when the field is absent).
\<close>

definition sync_starter_code :: "string option option \<Rightarrow> string \<Rightarrow> string \<Rightarrow> string" where
  "sync_starter_code currentQuestion language code =
     (case currentQuestion of
        None \<Rightarrow> code
      | Some starter \<Rightarrow>
          (let sc = (case starter of None \<Rightarrow> [] | Some s \<Rightarrow> s);
               ok = starterMatchesLanguage sc language
           in if ok \<and> trim sc \<noteq> [] then sc else defaultStarter language))"

section \<open>Auxiliary definitions for the statements\<close>

text \<open>The result an iteration appends, and the sandbox calls it makes (none or one).\<close>

definition case_result :: "run_env \<Rightarrow> nat \<Rightarrow> run_result" where
  "case_result e i =
     last (st_results (run_case e i \<lparr>st_results = [], st_passedCount = 0, st_calls = []\<rparr>))"

definition case_calls :: "run_env \<Rightarrow> nat \<Rightarrow> (nat \<times> runtime \<times> program) list" where
  "case_calls e i =
     st_calls (run_case e i \<lparr>st_results = [], st_passedCount = 0, st_calls = []\<rparr>)"

text \<open>The synthetic cases the two padding loops append at position \<open>k\<close> (counted from 0).\<close>

definition sanity_case :: "nat \<Rightarrow> sanitized_case" where
  "sanity_case k =
     \<lparr>sc_name = ''Case '' @ decimal (k + 1), sc_input = ''null'', sc_expectedOutput = ''null'',
      sc_explanation = ''Basic sanity check.''\<rparr>"

definition hidden_sanity_case :: "nat \<Rightarrow> sanitized_case" where
  "hidden_sanity_case k =
     \<lparr>sc_name = ''Hidden '' @ decimal (k + 1), sc_input = ''null'', sc_expectedOutput = ''null'',
      sc_explanation = ''Hidden sanity check / edge coverage.''\<rparr>"




section \<open>Example inputs\<close>

text \<open>
  The table of the specification, with a URL parser that answers as the platform's does on
  the three strings that reach it.
\<close>

definition example_url_protocol :: "string \<Rightarrow> string option" where
  "example_url_protocol u =
     (if u = ''ftp://x.com'' then Some ''ftp:''
      else if u = ''https://example.com/docs'' then Some ''https:''
      else None)"

text \<open>
  A platform stub that answers as the JavaScript platform does on the strings used below,
  and a sandbox that answers by the index of the case.
\<close>

definition example_platform :: js_platform where
  \<open>example_platform =
     \<lparr>Number_toString = (\<lambda>raw. if raw = ''1.50'' \<or> raw = ''1.5'' then ''1.5'' else ''Infinity''),
      JSON_reserialize = (\<lambda>raw. if raw = ''{ "a": 1, "b": 2 }'' \<or> raw = ''{"a":1,"b":2}''
                                  then ''{"a":1,"b":2}'' else raw)\<rparr>\<close>

definition example_sandbox :: sandbox where
  "example_sandbox i rt prog =
     (if i = 0 then
        (Sandbox_returned \<lparr>run_stdout = Some ('' 4'' @ [CHR 0x0A]), run_stderr = Some [],
                            run_code = Some 0\<rparr>, 120)
      else if i = 1 then
        (Sandbox_returned \<lparr>run_stdout = Some ''4'', run_stderr = Some ''Traceback'',
                            run_code = Some 1\<rparr>, 95)
      else if i = 2 then
        (Sandbox_returned \<lparr>run_stdout = None, run_stderr = None, run_code = None\<rparr>, 80)
      else (Sandbox_threw ''Runner error: busy'', 8500))"

definition example_headers :: request_headers where
  "example_headers = \<lparr>x_forwarded_for = Some ''10.0.0.1, 10.0.0.2'', x_real_ip = None\<rparr>"

definition example_body :: run_body where
  "example_body =
     \<lparr>rq_code = JS_string ''def solve(input): return 4'',
      rq_language = Some ''Python'',
      rq_functionName = None,
      rq_testCases =
        [Some \<lparr>tc_name = Some ''sum'', tc_input = Some ''[2, 2]'', tc_expectedOutput = Some ''04''\<rparr>,
         Some \<lparr>tc_name = None, tc_input = Some ''[1, 3]'', tc_expectedOutput = Some ''4''\<rparr>],
      rq_hiddenTestCases =
        [None,
         Some \<lparr>tc_name = None, tc_input = Some ''7'', tc_expectedOutput = Some ''4''\<rparr>,
         Some \<lparr>tc_name = Some ''big'', tc_input = Some (replicate 4001 CHR ''1''),
               tc_expectedOutput = Some ''4''\<rparr>,
         Some \<lparr>tc_name = Some ''broken'', tc_input = Some ''{nope'', tc_expectedOutput = None\<rparr>],
      rq_mode = Some ''submit''\<rparr>"

definition example_request :: run_request where
  "example_request = \<lparr>rq_headers = example_headers, rq_body = Some example_body\<rparr>"

text \<open>The same exercise in \<open>run\<close> mode, and a request with twenty visible cases.\<close>

definition example_run_request :: run_request where
  "example_run_request =
     \<lparr>rq_headers = example_headers, rq_body = Some (example_body\<lparr>rq_mode := None\<rparr>)\<rparr>"

definition example_twenty_request :: run_request where
  "example_twenty_request =
     \<lparr>rq_headers = example_headers,
      rq_body = Some (example_body\<lparr>rq_mode := Some ''run'',
                        rq_testCases := replicate 20 None\<rparr>)\<rparr>"

text \<open>What the handler answers to \<open>example_request\<close>, and the sandbox calls it makes.\<close>

definition example_results :: "run_result list" where
  "example_results =
     [\<lparr>name = ''sum'', passed = True, expectedOutput = ''04'', actualOutput = ''4'',
       stderr = [], exitCode = 0, runtimeMs = 120, hidden = False\<rparr>,
      \<lparr>name = ''Case 2'', passed = False, expectedOutput = ''4'', actualOutput = ''4'',
       stderr = ''Traceback'', exitCode = 1, runtimeMs = 95, hidden = False\<rparr>,
      \<lparr>name = ''Case 3'', passed = True, expectedOutput = [], actualOutput = [],
       stderr = [], exitCode = 0, runtimeMs = 80, hidden = True\<rparr>,
      \<lparr>name = ''Case 4'', passed = False, expectedOutput = ''4'', actualOutput = [],
       stderr = ''Runner error: busy'', exitCode = 1, runtimeMs = 8500, hidden = True\<rparr>,
      \<lparr>name = ''big'', passed = False, expectedOutput = ''4'', actualOutput = [],
       stderr = ''Input too large.'', exitCode = 1, runtimeMs = 0, hidden = True\<rparr>,
      \<lparr>name = ''broken'', passed = False, expectedOutput = [], actualOutput = [],
       stderr = ''Testcase input is not valid JSON.'', exitCode = 1, runtimeMs = 0,
       hidden = True\<rparr>]"

definition example_calls :: "(nat \<times> runtime \<times> program) list" where
  "example_calls =
     [(0, \<lparr>rt_language = ''python'', rt_version = ''3.10.0''\<rparr>,
       pyHarness ''def solve(input): return 4'' ''[2, 2]'' ''solve''),
      (1, \<lparr>rt_language = ''python'', rt_version = ''3.10.0''\<rparr>,
       pyHarness ''def solve(input): return 4'' ''[1, 3]'' ''solve''),
      (2, \<lparr>rt_language = ''python'', rt_version = ''3.10.0''\<rparr>,
       pyHarness ''def solve(input): return 4'' ''null'' ''solve''),
      (3, \<lparr>rt_language = ''python'', rt_version = ''3.10.0''\<rparr>,
       pyHarness ''def solve(input): return 4'' ''7'' ''solve'')]"

text \<open>
  A generation request, and a model whose reply has two entries: a question with four hints
  of which the first is empty, and a \<open>null\<close>.
\<close>

definition example_generate_request :: generate_request where
  "example_generate_request =
     \<lparr>g_headers = example_headers,
      g_body = Some \<lparr>g_docsUrl = JS_string '' https://example.com/docs '',
                     g_language = Some ''Python''\<rparr>\<rparr>"

definition example_model_hints :: "string option list" where
  "example_model_hints = [Some [], Some ''a'', Some ''b'', Some ''c'']"

definition example_question :: raw_question where
  "example_question =
     \<lparr>q_title = Some ''Sum'', q_concept = None, q_question = Some ''Add the numbers.'',
      q_functionName = Some ''add'',
      q_starterCode = Some ''export function solve(input) { return 0; }'',
      q_instructions = None,
      q_hints = Some example_model_hints,
      q_difficulty = Some '' Advanced '',
      q_testCases = Some [Some \<lparr>rc_name = None, rc_input = Some ''[1, 2]'',
                                 rc_expectedOutput = Some ''3'', rc_explanation = None\<rparr>],
      q_hiddenTestCases = None\<rparr>"

definition example_model :: "string \<Rightarrow> string \<Rightarrow> model_reply" where
  "example_model url lang = Questions [Some example_question, None]"

definition questions_of :: "generate_response \<Rightarrow> normalized_question list" where
  "questions_of r = (case r of Generate_ok qs \<Rightarrow> qs | Generate_error _ _ _ \<Rightarrow> [])"

section \<open>Properties of the limiter\<close>

lemma rateLimit_bucket:
  "snd (rateLimit bs now key limit windowMs) key =
     Some \<lparr>count = (case bs key of None \<Rightarrow> 0
                     | Some b \<Rightarrow> if now > resetAt b then 0 else count b) + 1,
           resetAt = (case bs key of None \<Rightarrow> now + windowMs
                     | Some b \<Rightarrow> if now > resetAt b then now + windowMs else resetAt b)\<rparr>"
  by (simp add: rateLimit_def Let_def split: option.split)

lemma rateLimit_result:
  "fst (rateLimit bs now key limit windowMs) =
     (let b = the (snd (rateLimit bs now key limit windowMs) key)
      in \<lparr>allowed = (count b \<le> limit), remaining = max 0 (limit - count b),
          r_resetAt = resetAt b\<rparr>)"
  by (simp add: rateLimit_def Let_def)

lemma rateLimit_calls_in_window:
  "bs key = Some \<lparr>count = c, resetAt = R\<rparr> \<Longrightarrow> list_all (\<lambda>t. t \<le> R) ts \<Longrightarrow>
   rateLimit_calls bs key limit windowMs ts =
     (map (\<lambda>j. \<lparr>allowed = (c + int j + 1 \<le> limit),
                remaining = max 0 (limit - (c + int j + 1)),
                r_resetAt = R\<rparr>) [0..<length ts],
      bs(key \<mapsto> \<lparr>count = c + int (length ts), resetAt = R\<rparr>))"
proof (induction ts arbitrary: bs c)
  case Nil
  then show ?case by (simp add: fun_upd_idem)
next
  case (Cons t ts)
  let ?bs1 = "bs(key \<mapsto> \<lparr>count = c + 1, resetAt = R\<rparr>)"
  have step: "rateLimit bs t key limit windowMs =
      (\<lparr>allowed = (c + 1 \<le> limit), remaining = max 0 (limit - (c + 1)), r_resetAt = R\<rparr>, ?bs1)"
    using Cons.prems by (simp add: rateLimit_def Let_def)
  have rest: "rateLimit_calls ?bs1 key limit windowMs ts =
     (map (\<lambda>j. \<lparr>allowed = (c + 1 + int j + 1 \<le> limit),
                remaining = max 0 (limit - (c + 1 + int j + 1)),
                r_resetAt = R\<rparr>) [0..<length ts],
      ?bs1(key \<mapsto> \<lparr>count = c + 1 + int (length ts), resetAt = R\<rparr>))"
    using Cons.prems by (intro Cons.IH) simp_all
  have shift: "[0..<Suc (length ts)] = 0 # map Suc [0..<length ts]"
    by (simp add: upt_conv_Cons map_Suc_upt del: upt_Suc)
  have unroll: "rateLimit_calls bs key limit windowMs (t # ts) =
      (\<lparr>allowed = (c + 1 \<le> limit), remaining = max 0 (limit - (c + 1)), r_resetAt = R\<rparr>
         # fst (rateLimit_calls ?bs1 key limit windowMs ts),
       snd (rateLimit_calls ?bs1 key limit windowMs ts))"
    by (simp add: step split: prod.split)
  show ?case
    unfolding unroll rest
    by (simp add: shift comp_def add.assoc fun_eq_iff del: upt_Suc)
qed

lemma rateLimit_fresh_key:
  "bs key = None \<Longrightarrow>
   rateLimit bs t0 key limit windowMs =
     (\<lparr>allowed = (1 \<le> limit), remaining = max 0 (limit - 1), r_resetAt = t0 + windowMs\<rparr>,
      bs(key \<mapsto> \<lparr>count = 1, resetAt = t0 + windowMs\<rparr>))"
  by (simp add: rateLimit_def Let_def)

lemma rateLimit_calls_fresh_key:
  assumes "bs key = None" and "list_all (\<lambda>t. t \<le> t0 + windowMs) ts"
  shows "rateLimit_calls bs key limit windowMs (t0 # ts) =
     (map (\<lambda>j. \<lparr>allowed = (int j + 1 \<le> limit),
                remaining = max 0 (limit - (int j + 1)),
                r_resetAt = t0 + windowMs\<rparr>) [0..<Suc (length ts)],
      bs(key \<mapsto> \<lparr>count = 1 + int (length ts), resetAt = t0 + windowMs\<rparr>))"
proof -
  let ?R = "t0 + windowMs"
  let ?bs1 = "bs(key \<mapsto> \<lparr>count = 1, resetAt = ?R\<rparr>)"
  have rest: "rateLimit_calls ?bs1 key limit windowMs ts =
     (map (\<lambda>j. \<lparr>allowed = (1 + int j + 1 \<le> limit),
                remaining = max 0 (limit - (1 + int j + 1)),
                r_resetAt = ?R\<rparr>) [0..<length ts],
      ?bs1(key \<mapsto> \<lparr>count = 1 + int (length ts), resetAt = ?R\<rparr>))"
    using assms(2) by (intro rateLimit_calls_in_window) simp_all
  have unroll: "rateLimit_calls bs key limit windowMs (t0 # ts) =
      (\<lparr>allowed = (1 \<le> limit), remaining = max 0 (limit - 1), r_resetAt = ?R\<rparr>
         # fst (rateLimit_calls ?bs1 key limit windowMs ts),
       snd (rateLimit_calls ?bs1 key limit windowMs ts))"
    using assms(1) by (simp add: rateLimit_fresh_key split: prod.split)
  have shift: "[0..<Suc (length ts)] = 0 # map Suc [0..<length ts]"
    by (simp add: upt_conv_Cons map_Suc_upt del: upt_Suc)
  show ?thesis
    unfolding unroll rest
    by (simp add: shift comp_def add.commute add.left_commute fun_eq_iff del: upt_Suc)
qed

lemma rateLimit_after_reset:
  "bs key = Some \<lparr>count = c, resetAt = R\<rparr> \<Longrightarrow> R < t \<Longrightarrow>
   rateLimit bs t key limit windowMs =
     (\<lparr>allowed = (1 \<le> limit), remaining = max 0 (limit - 1), r_resetAt = t + windowMs\<rparr>,
      bs(key \<mapsto> \<lparr>count = 1, resetAt = t + windowMs\<rparr>))"
  by (simp add: rateLimit_def Let_def)

text \<open>
  Claim C5. Every call of \<open>rateLimit\<close> stores for its key a bucket whose count is one more
  than the count of the running window (the stored count, or 0 for a fresh key or after the
  stored \<open>resetAt\<close> has passed), also when the call is rejected, and it returns
  \<open>allowed = (count \<le> limit)\<close>, \<open>remaining = max 0 (limit - count)\<close> and the bucket's
  \<open>resetAt\<close>. Consequently, for a fresh key whose first call is at \<open>t0\<close>, the calls made
  up to \<open>t0 + windowMs\<close> report \<open>allowed\<close> exactly for the first \<open>limit\<close> of them, and
  (for a limit of at least 1) the first call strictly after \<open>resetAt\<close> is allowed again with
  the count back at 1.
\<close>

theorem rateLimit_fixed_window:
  "(\<exists>b'. snd (rateLimit bs now key limit windowMs) key = Some b'
       \<and> count b' = (case bs key of None \<Rightarrow> 0
                      | Some b \<Rightarrow> if now > resetAt b then 0 else count b) + 1
       \<and> fst (rateLimit bs now key limit windowMs) =
           \<lparr>allowed = (count b' \<le> limit), remaining = max 0 (limit - count b'),
            r_resetAt = resetAt b'\<rparr>)
   \<and> (bs key = None \<longrightarrow> list_all (\<lambda>t. t \<le> t0 + windowMs) ts \<longrightarrow>
        length (fst (rateLimit_calls bs key limit windowMs (t0 # ts))) = Suc (length ts)
        \<and> (\<forall>j \<le> length ts.
              allowed (fst (rateLimit_calls bs key limit windowMs (t0 # ts)) ! j)
                = (int j + 1 \<le> limit))
        \<and> (\<forall>t. t0 + windowMs < t \<longrightarrow> 1 \<le> limit \<longrightarrow>
              allowed (fst (rateLimit (snd (rateLimit_calls bs key limit windowMs (t0 # ts)))
                             t key limit windowMs))
              \<and> map_option count
                    (snd (rateLimit (snd (rateLimit_calls bs key limit windowMs (t0 # ts)))
                             t key limit windowMs) key) = Some 1))"
proof (intro conjI impI)
  show "\<exists>b'. snd (rateLimit bs now key limit windowMs) key = Some b'
       \<and> count b' = (case bs key of None \<Rightarrow> 0
                      | Some b \<Rightarrow> if now > resetAt b then 0 else count b) + 1
       \<and> fst (rateLimit bs now key limit windowMs) =
           \<lparr>allowed = (count b' \<le> limit), remaining = max 0 (limit - count b'),
            r_resetAt = resetAt b'\<rparr>"
    using rateLimit_result [of bs now key limit windowMs]
    by (simp add: rateLimit_bucket Let_def)
next
  assume fresh: "bs key = None" and win: "list_all (\<lambda>t. t \<le> t0 + windowMs) ts"
  have calls: "rateLimit_calls bs key limit windowMs (t0 # ts) =
     (map (\<lambda>j. \<lparr>allowed = (int j + 1 \<le> limit),
                remaining = max 0 (limit - (int j + 1)),
                r_resetAt = t0 + windowMs\<rparr>) [0..<Suc (length ts)],
      bs(key \<mapsto> \<lparr>count = 1 + int (length ts), resetAt = t0 + windowMs\<rparr>))"
    using fresh win by (rule rateLimit_calls_fresh_key)
  show "length (fst (rateLimit_calls bs key limit windowMs (t0 # ts))) = Suc (length ts)"
    unfolding calls by simp
  show "\<forall>j \<le> length ts.
          allowed (fst (rateLimit_calls bs key limit windowMs (t0 # ts)) ! j)
            = (int j + 1 \<le> limit)"
    unfolding calls by (simp add: nth_append less_Suc_eq_le del: upt_Suc)
  show "\<forall>t. t0 + windowMs < t \<longrightarrow> 1 \<le> limit \<longrightarrow>
          allowed (fst (rateLimit (snd (rateLimit_calls bs key limit windowMs (t0 # ts)))
                         t key limit windowMs))
          \<and> map_option count
                (snd (rateLimit (snd (rateLimit_calls bs key limit windowMs (t0 # ts)))
                         t key limit windowMs) key) = Some 1"
    unfolding calls
    by (simp add: rateLimit_after_reset [where c = "1 + int (length ts)" and R = "t0 + windowMs"])
qed

theorem rateLimit_fixed_window_witness:
  "map allowed (fst (rateLimit_calls Map.empty ''run:10.0.0.1'' 2 300000 [1000, 1500, 301000]))
     = [True, True, False]
   \<and> allowed (fst (rateLimit
         (snd (rateLimit_calls Map.empty ''run:10.0.0.1'' 2 300000 [1000, 1500, 301000]))
         301001 ''run:10.0.0.1'' 2 300000))
   \<and> map_option count (snd (rateLimit
         (snd (rateLimit_calls Map.empty ''run:10.0.0.1'' 2 300000 [1000, 1500, 301000]))
         301001 ''run:10.0.0.1'' 2 300000) ''run:10.0.0.1'') = Some 1"
proof -
  have fresh: "(Map.empty :: buckets) ''run:10.0.0.1'' = None"
    by simp
  have win: "list_all (\<lambda>t. t \<le> 1000 + 300000) [1500, 301000 :: int]"
    by simp
  from rateLimit_fixed_window [of Map.empty 0 "''run:10.0.0.1''" 2 300000 1000 "[1500, 301000]"]
    fresh win
  have *: "(\<forall>j \<le> 2. allowed (fst (rateLimit_calls Map.empty ''run:10.0.0.1'' 2 300000
                                   [1000, 1500, 301000]) ! j) = (int j + 1 \<le> 2))
     \<and> (\<forall>t. 301000 < t \<longrightarrow>
           allowed (fst (rateLimit
             (snd (rateLimit_calls Map.empty ''run:10.0.0.1'' 2 300000 [1000, 1500, 301000]))
             t ''run:10.0.0.1'' 2 300000))
           \<and> map_option count (snd (rateLimit
             (snd (rateLimit_calls Map.empty ''run:10.0.0.1'' 2 300000 [1000, 1500, 301000]))
             t ''run:10.0.0.1'' 2 300000) ''run:10.0.0.1'') = Some 1)"
    and len: "length (fst (rateLimit_calls Map.empty ''run:10.0.0.1'' 2 300000
                                   [1000, 1500, 301000])) = 3"
    by simp_all
  from * have a0: "allowed (fst (rateLimit_calls Map.empty ''run:10.0.0.1'' 2 300000
                                   [1000, 1500, 301000]) ! 0)"
    and a1: "allowed (fst (rateLimit_calls Map.empty ''run:10.0.0.1'' 2 300000
                                   [1000, 1500, 301000]) ! 1)"
    and a2: "\<not> allowed (fst (rateLimit_calls Map.empty ''run:10.0.0.1'' 2 300000
                                   [1000, 1500, 301000]) ! 2)"
    by simp_all
  obtain x y z where xs: "fst (rateLimit_calls Map.empty ''run:10.0.0.1'' 2 300000
                                   [1000, 1500, 301000]) = [x, y, z]"
    using len by (auto simp: length_Suc_conv numeral_3_eq_3)
  from * a0 a1 a2 show ?thesis
    unfolding xs by simp
qed

text \<open>
  Claim C10. A call of \<open>rateLimit\<close> for one key leaves the bucket stored for every other key
  (its count and its \<open>resetAt\<close>) as it was.
\<close>

theorem rateLimit_other_keys_unchanged:
  "k' \<noteq> key \<Longrightarrow> snd (rateLimit bs now key limit windowMs) k' = bs k'"
  by (simp add: rateLimit_def Let_def)

theorem rateLimit_other_keys_unchanged_witness:
  "''gen:10.0.0.1'' \<noteq> ''run:10.0.0.1''
   \<and> snd (rateLimit [''gen:10.0.0.1'' \<mapsto> \<lparr>count = 7, resetAt = 5000\<rparr>]
             6000 ''run:10.0.0.1'' 30 300000) ''gen:10.0.0.1''
       = Some \<lparr>count = 7, resetAt = 5000\<rparr>"
proof -
  have ne: "''gen:10.0.0.1'' \<noteq> ''run:10.0.0.1''"
    by simp
  from rateLimit_other_keys_unchanged [OF ne,
      of "[''gen:10.0.0.1'' \<mapsto> \<lparr>count = 7, resetAt = 5000\<rparr>]" 6000 30 300000] ne
  show ?thesis by simp
qed

text \<open>
  Claim C6. \<open>validateDocsUrl\<close> checks its rules in order, the first failure wins, and each
  failure has its own message: a value that is not a string; a string that is empty after
  trimming; a trimmed length over 600; a string the URL parser rejects; a URL whose protocol
  is neither \<open>http:\<close> nor \<open>https:\<close>. Every other input is accepted with the trimmed
  string as value. This holds whatever the URL parser accepts.
\<close>

theorem validateDocsUrl_rules:
  "((\<forall>s. v \<noteq> JS_string s) \<longrightarrow>
      validateDocsUrl url_protocol v = Inl ''docsUrl must be a string'')
   \<and> (trim s = [] \<longrightarrow>
      validateDocsUrl url_protocol (JS_string s) = Inl ''docsUrl is required'')
   \<and> (trim s \<noteq> [] \<longrightarrow> 600 < length (trim s) \<longrightarrow>
      validateDocsUrl url_protocol (JS_string s) = Inl ''docsUrl is too long'')
   \<and> (trim s \<noteq> [] \<longrightarrow> length (trim s) \<le> 600 \<longrightarrow> url_protocol (trim s) = None \<longrightarrow>
      validateDocsUrl url_protocol (JS_string s) = Inl ''docsUrl must be a valid URL'')
   \<and> (trim s \<noteq> [] \<longrightarrow> length (trim s) \<le> 600 \<longrightarrow> url_protocol (trim s) = Some p \<longrightarrow>
      p \<noteq> ''http:'' \<longrightarrow> p \<noteq> ''https:'' \<longrightarrow>
      validateDocsUrl url_protocol (JS_string s)
        = Inl ''docsUrl must start with http:// or https://'')
   \<and> (trim s \<noteq> [] \<longrightarrow> length (trim s) \<le> 600 \<longrightarrow> url_protocol (trim s) = Some p \<longrightarrow>
      p = ''http:'' \<or> p = ''https:'' \<longrightarrow>
      validateDocsUrl url_protocol (JS_string s) = Inr (trim s))"
  by (cases v) (auto simp: validateDocsUrl_def Let_def)

lemma trim_example_strings:
  "trim [] = []"
  "trim ''   '' = []"
  "trim ''not a url'' = ''not a url''"
  "trim ''ftp://x.com'' = ''ftp://x.com''"
  "trim '' https://example.com/docs '' = ''https://example.com/docs''"
  by (simp_all add: trim_def js_whitespace_def)

lemma trim_replicate_a: "trim (replicate n CHR ''a'') = replicate n CHR ''a''"
proof -
  have "dropWhile js_whitespace (replicate n CHR ''a'') = replicate n CHR ''a''"
    by (cases n) (simp_all add: js_whitespace_def)
  then show ?thesis
    by (simp add: trim_def)
qed

theorem validateDocsUrl_rules_witness:
  "validateDocsUrl example_url_protocol (JS_number 123) = Inl ''docsUrl must be a string''
   \<and> validateDocsUrl example_url_protocol (JS_string []) = Inl ''docsUrl is required''
   \<and> validateDocsUrl example_url_protocol (JS_string ''   '') = Inl ''docsUrl is required''
   \<and> validateDocsUrl example_url_protocol (JS_string (replicate 601 CHR ''a''))
       = Inl ''docsUrl is too long''
   \<and> validateDocsUrl example_url_protocol (JS_string ''not a url'')
       = Inl ''docsUrl must be a valid URL''
   \<and> validateDocsUrl example_url_protocol (JS_string ''ftp://x.com'')
       = Inl ''docsUrl must start with http:// or https://''
   \<and> validateDocsUrl example_url_protocol (JS_string '' https://example.com/docs '')
       = Inr ''https://example.com/docs''"
proof -
  have 1: "validateDocsUrl example_url_protocol (JS_number 123) = Inl ''docsUrl must be a string''"
    using validateDocsUrl_rules [of "JS_number 123" example_url_protocol] by simp
  have 2: "validateDocsUrl example_url_protocol (JS_string []) = Inl ''docsUrl is required''"
    using validateDocsUrl_rules [of _ example_url_protocol "[]"]
    by (simp add: trim_example_strings)
  have 3: "validateDocsUrl example_url_protocol (JS_string ''   '') = Inl ''docsUrl is required''"
    using validateDocsUrl_rules [of _ example_url_protocol "''   ''"]
    by (simp add: trim_example_strings)
  have 4: "validateDocsUrl example_url_protocol (JS_string (replicate 601 CHR ''a''))
       = Inl ''docsUrl is too long''"
    using validateDocsUrl_rules [of _ example_url_protocol "replicate 601 CHR ''a''"]
    by (simp add: trim_replicate_a)
  have 5: "validateDocsUrl example_url_protocol (JS_string ''not a url'')
       = Inl ''docsUrl must be a valid URL''"
    using validateDocsUrl_rules [of _ example_url_protocol "''not a url''"]
    by (simp add: trim_example_strings example_url_protocol_def)
  have 6: "validateDocsUrl example_url_protocol (JS_string ''ftp://x.com'')
       = Inl ''docsUrl must start with http:// or https://''"
    using validateDocsUrl_rules [of _ example_url_protocol "''ftp://x.com''" "''ftp:''"]
    by (simp add: trim_example_strings example_url_protocol_def)
  have 7: "validateDocsUrl example_url_protocol (JS_string '' https://example.com/docs '')
       = Inr ''https://example.com/docs''"
    using validateDocsUrl_rules [of _ example_url_protocol "'' https://example.com/docs ''"
        "''https:''"]
    by (simp add: trim_example_strings example_url_protocol_def)
  from 1 2 3 4 5 6 7 show ?thesis by simp
qed

section \<open>Properties of the execution gateway\<close>

subsection \<open>The loop, case by case\<close>

lemma run_case_appends:
  "run_case e i st =
     \<lparr>st_results = st_results st @ [case_result e i],
      st_passedCount = st_passedCount st + (if passed (case_result e i) then 1 else 0),
      st_calls = st_calls st @ case_calls e i\<rparr>"
  by (cases st)
     (simp add: run_case_def case_result_def case_calls_def Let_def
        split: prod.split sandbox_outcome.split)

lemma run_loop_unfold:
  "i \<le> min (length (env_casesToRun e)) MAX_CASES_RUN \<Longrightarrow>
   run_loop e i st =
     \<lparr>st_results = st_results st
        @ map (case_result e) [i..<min (length (env_casesToRun e)) MAX_CASES_RUN],
      st_passedCount = st_passedCount st
        + length (filter passed
            (map (case_result e) [i..<min (length (env_casesToRun e)) MAX_CASES_RUN])),
      st_calls = st_calls st
        @ concat (map (case_calls e) [i..<min (length (env_casesToRun e)) MAX_CASES_RUN])\<rparr>"
proof (induction e i st rule: run_loop.induct)
  case (1 e i st)
  let ?n = "min (length (env_casesToRun e)) MAX_CASES_RUN"
  show ?case
  proof (cases "i < ?n")
    case True
    then have upt: "[i..<?n] = i # [Suc i..<?n]"
      by (simp add: upt_conv_Cons)
    have "run_loop e i st = run_loop e (Suc i) (run_case e i st)"
      using True by (subst run_loop.simps) simp
    also have "\<dots> =
       \<lparr>st_results = st_results (run_case e i st) @ map (case_result e) [Suc i..<?n],
        st_passedCount = st_passedCount (run_case e i st)
          + length (filter passed (map (case_result e) [Suc i..<?n])),
        st_calls = st_calls (run_case e i st) @ concat (map (case_calls e) [Suc i..<?n])\<rparr>"
      using True by (intro "1.IH") simp_all
    finally show ?thesis
      unfolding upt by (simp add: run_case_appends)
  next
    case False
    with "1.prems" have "i = ?n" by linarith
    then show ?thesis
      by (subst run_loop.simps) simp
  qed
qed

lemma run_loop_from_start:
  "run_loop e 0 \<lparr>st_results = [], st_passedCount = 0, st_calls = []\<rparr> =
     \<lparr>st_results = map (case_result e) [0..<min (length (env_casesToRun e)) MAX_CASES_RUN],
      st_passedCount = length (filter passed
          (map (case_result e) [0..<min (length (env_casesToRun e)) MAX_CASES_RUN])),
      st_calls = concat (map (case_calls e) [0..<min (length (env_casesToRun e)) MAX_CASES_RUN])\<rparr>"
  by (subst run_loop_unfold) simp_all

text \<open>The three ways an iteration ends.\<close>

lemma case_result_too_large:
  "length (case_input e i) > MAX_INPUT_CHARS \<Longrightarrow>
   case_result e i =
     \<lparr>name = case_name e i, passed = False, expectedOutput = case_expectedOutput e i,
      actualOutput = [], stderr = ''Input too large.'', exitCode = 1, runtimeMs = 0,
      hidden = case_hidden e i\<rparr>
   \<and> case_calls e i = []"
  by (simp add: case_result_def case_calls_def run_case_def)

lemma case_result_invalid_json:
  "length (case_input e i) \<le> MAX_INPUT_CHARS \<Longrightarrow> \<not> json_valid (case_input e i) \<Longrightarrow>
   case_result e i =
     \<lparr>name = case_name e i, passed = False, expectedOutput = case_expectedOutput e i,
      actualOutput = [], stderr = ''Testcase input is not valid JSON.'', exitCode = 1,
      runtimeMs = 0, hidden = case_hidden e i\<rparr>
   \<and> case_calls e i = []"
  by (simp add: case_result_def case_calls_def run_case_def)

lemma case_calls_sandbox:
  "length (case_input e i) \<le> MAX_INPUT_CHARS \<Longrightarrow> json_valid (case_input e i) \<Longrightarrow>
   case_calls e i = [(i, env_runtime e, case_program e i)]"
  by (simp add: case_calls_def run_case_def Let_def split: prod.split sandbox_outcome.split)

lemma case_result_threw:
  "length (case_input e i) \<le> MAX_INPUT_CHARS \<Longrightarrow> json_valid (case_input e i) \<Longrightarrow>
   env_sandbox e i (env_runtime e) (case_program e i) = (Sandbox_threw msg, elapsed) \<Longrightarrow>
   case_result e i =
     \<lparr>name = case_name e i, passed = False, expectedOutput = case_expectedOutput e i,
      actualOutput = [], stderr = msg, exitCode = 1, runtimeMs = elapsed,
      hidden = case_hidden e i\<rparr>"
  by (simp add: case_result_def run_case_def)

lemma case_result_returned:
  "length (case_input e i) \<le> MAX_INPUT_CHARS \<Longrightarrow> json_valid (case_input e i) \<Longrightarrow>
   env_sandbox e i (env_runtime e) (case_program e i) = (Sandbox_returned r, elapsed) \<Longrightarrow>
   case_result e i =
     \<lparr>name = case_name e i,
      passed = ((case run_code r of None \<Rightarrow> 0 | Some c \<Rightarrow> c) = 0
                \<and> normalizeOutput (env_platform e)
                      (truncate_stdout (trim (case run_stdout r of None \<Rightarrow> [] | Some s \<Rightarrow> s)))
                  = normalizeOutput (env_platform e) (case_expectedOutput e i)),
      expectedOutput = case_expectedOutput e i,
      actualOutput = truncate_stdout (trim (case run_stdout r of None \<Rightarrow> [] | Some s \<Rightarrow> s)),
      stderr = trim (case run_stderr r of None \<Rightarrow> [] | Some s \<Rightarrow> s),
      exitCode = (case run_code r of None \<Rightarrow> 0 | Some c \<Rightarrow> c),
      runtimeMs = elapsed,
      hidden = case_hidden e i\<rparr>"
  by (simp add: case_result_def run_case_def Let_def)

lemma case_result_fields:
  "name (case_result e i) = case_name e i"
  "expectedOutput (case_result e i) = case_expectedOutput e i"
  "hidden (case_result e i) = case_hidden e i"
  by (simp_all add: case_result_def run_case_def Let_def
      split: prod.split sandbox_outcome.split)

lemma case_result_passed:
  "passed (case_result e i) =
     (exitCode (case_result e i) = 0
      \<and> normalizeOutput (env_platform e) (actualOutput (case_result e i))
        = normalizeOutput (env_platform e) (expectedOutput (case_result e i)))"
  by (simp add: case_result_def run_case_def Let_def
      split: prod.split sandbox_outcome.split)

text \<open>When the handler answers 200, and with what.\<close>

lemma POST_ok:
  assumes "POST P sb bs now now' elapsed_total req = (Run_ok s, bs', calls)"
  shows "\<exists>body code.
      rq_body req = Some body \<and> rq_code body = JS_string code
      \<and> code \<noteq> [] \<and> length code \<le> MAX_CODE_CHARS
      \<and> env_casesToRun (run_env_of P sb code body) \<noteq> []
      \<and> s = (let e = run_env_of P sb code body;
                  rs = map (case_result e) [0..<min (length (env_casesToRun e)) MAX_CASES_RUN]
              in \<lparr>mode = env_mode e, passedCount = length (filter passed rs),
                  total' = length rs,
                  allPassed = (length (filter passed rs) = length rs),
                  totalRuntimeMs = elapsed_total, results = rs\<rparr>)
      \<and> calls = (let e = run_env_of P sb code body
                  in concat (map (case_calls e)
                       [0..<min (length (env_casesToRun e)) MAX_CASES_RUN]))"
  using assms
  by (auto simp: POST_def Let_def run_loop_from_start
      split: prod.splits if_splits option.splits js_value.splits)

lemma POST_ok_results:
  assumes "POST P sb bs now now' elapsed_total req = (Run_ok s, bs', calls)"
    and "rq_body req = Some body" and "rq_code body = JS_string code"
    and "e = run_env_of P sb code body"
  shows "total' s = min (length (env_casesToRun e)) MAX_CASES_RUN"
    and "results s = map (case_result e) [0..<total' s]"
    and "passedCount s = length (filter passed (results s))"
    and "allPassed s = (passedCount s = total' s)"
    and "mode s = env_mode e"
    and "calls = concat (map (case_calls e) [0..<total' s])"
    and "env_casesToRun e \<noteq> []"
  using POST_ok [OF assms(1)] assms(2-4) by (auto simp: Let_def)

lemma POST_ok_nth:
  assumes "POST P sb bs now now' elapsed_total req = (Run_ok s, bs', calls)"
    and "rq_body req = Some body" and "rq_code body = JS_string code"
    and "e = run_env_of P sb code body"
    and "j < total' s"
  shows "results s ! j = case_result e j"
  using POST_ok_results(2) [OF assms(1-4)] assms(5) by simp

lemma case_calls_member:
  "c \<in> set (case_calls e k) \<Longrightarrow>
   c = (k, env_runtime e, case_program e k)
   \<and> length (case_input e k) \<le> MAX_INPUT_CHARS \<and> json_valid (case_input e k)"
  by (auto simp: case_calls_def run_case_def Let_def
      split: if_splits prod.splits sandbox_outcome.splits)

lemma calls_member:
  "c \<in> set (concat (map (case_calls e) [0..<n])) \<Longrightarrow>
   fst c < n \<and> c = (fst c, env_runtime e, case_program e (fst c))
   \<and> length (case_input e (fst c)) \<le> MAX_INPUT_CHARS \<and> json_valid (case_input e (fst c))"
  by (auto dest!: case_calls_member)

lemma calls_contain:
  "k < n \<Longrightarrow> length (case_input e k) \<le> MAX_INPUT_CHARS \<Longrightarrow> json_valid (case_input e k) \<Longrightarrow>
   (k, env_runtime e, case_program e k) \<in> set (concat (map (case_calls e) [0..<n]))"
  by (auto simp: case_calls_sandbox intro!: bexI [of _ k])

lemma POST_accepted:
  assumes "allowed (fst (rateLimit bs now (''run:'' @ getClientIp (rq_headers req)) 30 300000))"
    and "rq_body req = Some body" and "rq_code body = JS_string code"
    and "code \<noteq> []" and "length code \<le> MAX_CODE_CHARS"
    and "env_casesToRun (run_env_of P sb code body) \<noteq> []"
  shows "POST P sb bs now now' elapsed_total req =
     (let e = run_env_of P sb code body;
          rs = map (case_result e) [0..<min (length (env_casesToRun e)) MAX_CASES_RUN]
      in (Run_ok \<lparr>mode = env_mode e, passedCount = length (filter passed rs),
                  total' = length rs,
                  allPassed = (length (filter passed rs) = length rs),
                  totalRuntimeMs = elapsed_total, results = rs\<rparr>,
          snd (rateLimit bs now (''run:'' @ getClientIp (rq_headers req)) 30 300000),
          concat (map (case_calls e) [0..<min (length (env_casesToRun e)) MAX_CASES_RUN])))"
  using assms
  by (cases "rateLimit bs now (''run:'' @ getClientIp (rq_headers req)) 30 300000")
     (simp add: POST_def Let_def run_loop_from_start)

subsection \<open>The example request, evaluated\<close>

lemma example_env:
  "run_env_of example_platform example_sandbox ''def solve(input): return 4'' example_body =
     \<lparr>env_platform = example_platform, env_sandbox = example_sandbox,
      env_code = ''def solve(input): return 4'', env_functionName = ''solve'',
      env_mode = ''submit'',
      env_visible = rq_testCases example_body,
      env_casesToRun = rq_testCases example_body @ rq_hiddenTestCases example_body,
      env_runtime = \<lparr>rt_language = ''python'', rt_version = ''3.10.0''\<rparr>\<rparr>"
  by (simp add: run_env_of_def example_body_def mapLanguage_def toLowerCase_def lower_char_def
      Let_def char_of_eq_iff)

lemma json_valid_examples:
  "json_valid ''null''" "json_valid ''[2, 2]''" "json_valid ''[1, 3]''" "json_valid ''7''"
  "\<not> json_valid ''{nope''"
  by (simp_all add: json_valid_def json_whitespace_def is_digit_def scan_number_def
      scan_fraction_def scan_exponent_def begin_value_def)

lemma upt_6: "[0..<6] = [0, 1, 2, 3, 4, 5]"
  by (simp add: upt_conv_Cons)

lemmas example_case_defs =
  case_result_def case_calls_def run_case_def case_input_def case_tc_def case_name_def
  case_expectedOutput_def case_hidden_def case_program_def example_body_def
  undefined_case_def MAX_INPUT_CHARS_def json_valid_examples example_sandbox_def
  Let_def truncate_stdout_def MAX_STDOUT_CHARS_def trim_def js_whitespace_def
  normalizeOutput_def numeric_pattern_def String_Number_def exact_integer_def
  integer_value_def fraction_digits_def unsigned_part_def looksJsonLike_def
  starts_with_def ends_with_def is_digit_def digits_value_def decimal.simps
  char_of_eq_iff example_platform_def

lemma example_case_results:
  "map (case_result (run_env_of example_platform example_sandbox
          ''def solve(input): return 4'' example_body)) [0, 1, 2, 3, 4, 5] = example_results"
  unfolding example_env example_results_def by (simp add: example_case_defs)

lemma example_case_calls:
  "concat (map (case_calls (run_env_of example_platform example_sandbox
          ''def solve(input): return 4'' example_body)) [0, 1, 2, 3, 4, 5]) = example_calls"
  unfolding example_env example_calls_def by (simp add: example_case_defs)

lemma example_allowed:
  "allowed (fst (rateLimit Map.empty 1000 (''run:'' @ getClientIp (rq_headers example_request))
                   30 300000))"
  by (simp add: rateLimit_def Let_def)

lemma example_POST:
  "POST example_platform example_sandbox Map.empty 1000 1000 42 example_request =
     (Run_ok \<lparr>mode = ''submit'', passedCount = 2, total' = 6, allPassed = False,
              totalRuntimeMs = 42, results = example_results\<rparr>,
      snd (rateLimit Map.empty 1000 (''run:'' @ getClientIp (rq_headers example_request))
             30 300000),
      example_calls)"
proof -
  let ?e = "run_env_of example_platform example_sandbox ''def solve(input): return 4''
              example_body"
  have body: "rq_body example_request = Some example_body"
    by (simp add: example_request_def)
  have code: "rq_code example_body = JS_string ''def solve(input): return 4''"
    by (simp add: example_body_def)
  have nonempty: "''def solve(input): return 4'' \<noteq> []"
    by simp
  have len: "length ''def solve(input): return 4'' \<le> MAX_CODE_CHARS"
    by (simp add: MAX_CODE_CHARS_def)
  have cases: "env_casesToRun ?e \<noteq> []"
    unfolding example_env by (simp add: example_body_def)
  have n: "min (length (env_casesToRun ?e)) MAX_CASES_RUN = 6"
    unfolding example_env by (simp add: example_body_def MAX_CASES_RUN_def)
  have rs: "map (case_result ?e) [0..<min (length (env_casesToRun ?e)) MAX_CASES_RUN]
      = example_results"
    unfolding n upt_6 by (rule example_case_results)
  have cs: "concat (map (case_calls ?e) [0..<min (length (env_casesToRun ?e)) MAX_CASES_RUN])
      = example_calls"
    unfolding n upt_6 by (rule example_case_calls)
  have md: "env_mode ?e = ''submit''"
    unfolding example_env by simp
  have passed: "length (filter passed example_results) = 2" "length example_results = 6"
    by (simp_all add: example_results_def)
  show ?thesis
    unfolding POST_accepted [OF example_allowed body code nonempty len cases] Let_def rs cs md passed
    by simp
qed

subsection \<open>Claims about the execution gateway\<close>

text \<open>
  Claim C1. In a 200 response, every per-case result has \<open>passed\<close> true if and only if its
  exit code is 0 and \<open>normalizeOutput\<close> of its actual output equals \<open>normalizeOutput\<close> of
  its expected output. For a case that reached the sandbox and got a reply, the exit code is
  the one the sandbox reported (0 when it reported none), the actual output is the trimmed,
  possibly truncated stdout, and the expected output is the case's \<open>expectedOutput\<close>.
\<close>

theorem POST_passed_iff:
  assumes "POST P sb bs now now' elapsed_total req = (Run_ok s, bs', calls)"
    and "rq_body req = Some body" and "rq_code body = JS_string code"
    and "e = run_env_of P sb code body"
    and "j < total' s"
  shows "passed (results s ! j) =
           (exitCode (results s ! j) = 0
            \<and> normalizeOutput P (actualOutput (results s ! j))
              = normalizeOutput P (expectedOutput (results s ! j)))
     \<and> (\<forall>r elapsed.
           length (case_input e j) \<le> MAX_INPUT_CHARS \<longrightarrow> json_valid (case_input e j) \<longrightarrow>
           sb j (env_runtime e) (case_program e j) = (Sandbox_returned r, elapsed) \<longrightarrow>
             exitCode (results s ! j) = (case run_code r of None \<Rightarrow> 0 | Some c \<Rightarrow> c)
             \<and> actualOutput (results s ! j)
               = truncate_stdout (trim (case run_stdout r of None \<Rightarrow> [] | Some out \<Rightarrow> out))
             \<and> expectedOutput (results s ! j) = case_expectedOutput e j)"
proof -
  have nth: "results s ! j = case_result e j"
    using assms by (rule POST_ok_nth)
  have P: "env_platform e = P" and sb: "env_sandbox e = sb"
    by (simp_all add: assms(4) run_env_of_def Let_def)
  show ?thesis
    unfolding nth
    using case_result_passed [of e j] case_result_returned [of e j]
    by (simp add: P sb)
qed

theorem POST_passed_iff_witness:
  "\<exists>s bs' calls.
     POST example_platform example_sandbox Map.empty 1000 1000 42 example_request
       = (Run_ok s, bs', calls)
     \<and> expectedOutput (results s ! 0) = ''04'' \<and> actualOutput (results s ! 0) = ''4''
     \<and> exitCode (results s ! 0) = 0 \<and> passed (results s ! 0)
     \<and> expectedOutput (results s ! 1) = ''4'' \<and> actualOutput (results s ! 1) = ''4''
     \<and> exitCode (results s ! 1) = 1 \<and> \<not> passed (results s ! 1)"
proof -
  let ?s = "\<lparr>mode = ''submit'', passedCount = 2, total' = 6, allPassed = False,
             totalRuntimeMs = 42, results = example_results\<rparr>"
  have body: "rq_body example_request = Some example_body"
    by (simp add: example_request_def)
  have code: "rq_code example_body = JS_string ''def solve(input): return 4''"
    by (simp add: example_body_def)
  have norm: "normalizeOutput example_platform ''4'' = normalizeOutput example_platform ''04''"
    by (simp add: example_case_defs)
  have "passed (results ?s ! 0) =
           (exitCode (results ?s ! 0) = 0
            \<and> normalizeOutput example_platform (actualOutput (results ?s ! 0))
              = normalizeOutput example_platform (expectedOutput (results ?s ! 0)))"
    and "passed (results ?s ! 1) =
           (exitCode (results ?s ! 1) = 0
            \<and> normalizeOutput example_platform (actualOutput (results ?s ! 1))
              = normalizeOutput example_platform (expectedOutput (results ?s ! 1)))"
    using POST_passed_iff [OF example_POST body code refl, of 0]
      POST_passed_iff [OF example_POST body code refl, of 1]
    by simp_all
  then have "passed (results ?s ! 0)" and "\<not> passed (results ?s ! 1)"
    by (simp_all add: example_results_def norm)
  then show ?thesis
    using example_POST by (intro exI [of _ ?s] exI conjI) (simp_all add: example_results_def)
qed

text \<open>
  Claim C3. A 200 response reports, under \<open>total\<close>, the number of results, which is the
  number of cases to run capped at 12; \<open>allPassed\<close> is \<open>passedCount = total\<close>, and
  \<open>passedCount\<close> counts the results that passed. The result at index \<open>j\<close> is the one of
  case \<open>j\<close> of the list to run. In mode \<open>run\<close> that list is the visible list and no result is
  hidden; in mode \<open>submit\<close> it is the visible list followed by the hidden list, and a
  result is hidden exactly from the index that is the number of visible cases.
\<close>

theorem POST_mode_and_cap:
  assumes "POST P sb bs now now' elapsed_total req = (Run_ok s, bs', calls)"
    and "rq_body req = Some body" and "rq_code body = JS_string code"
    and "e = run_env_of P sb code body"
  shows "mode s = (case rq_mode body of None \<Rightarrow> ''run'' | Some m \<Rightarrow> m)
     \<and> length (results s) = total' s
     \<and> results s = map (case_result e) [0..<total' s]
     \<and> passedCount s = length (filter passed (results s))
     \<and> allPassed s = (passedCount s = total' s)
     \<and> (mode s = ''run'' \<longrightarrow>
           env_casesToRun e = rq_testCases body
           \<and> total' s = min (length (rq_testCases body)) 12
           \<and> (\<forall>j < total' s. \<not> hidden (results s ! j)))
     \<and> (mode s = ''submit'' \<longrightarrow>
           env_casesToRun e = rq_testCases body @ rq_hiddenTestCases body
           \<and> total' s = min (length (rq_testCases body) + length (rq_hiddenTestCases body)) 12
           \<and> (\<forall>j < total' s. hidden (results s ! j) = (length (rq_testCases body) \<le> j)))"
proof -
  note ok = POST_ok_results [OF assms]
  have md: "env_mode e = (case rq_mode body of None \<Rightarrow> ''run'' | Some m \<Rightarrow> m)"
    and vis: "env_visible e = rq_testCases body"
    and cs: "env_casesToRun e =
      (if env_mode e = ''submit'' then rq_testCases body @ rq_hiddenTestCases body
       else rq_testCases body)"
    by (simp_all add: assms(4) run_env_of_def Let_def)
  have hid: "hidden (results s ! j) = (env_mode e = ''submit'' \<and> length (rq_testCases body) \<le> j)"
    if "j < total' s" for j
    using that by (simp add: ok(2) case_result_fields case_hidden_def vis)
  show ?thesis
    using ok(1,3,4,5) hid
    by (simp add: ok(2) [symmetric] md [symmetric] cs MAX_CASES_RUN_def)
       (simp add: ok(2))
qed

lemma example_twenty_accepted:
  "\<exists>s bs' calls.
     POST example_platform example_sandbox Map.empty 1000 1000 42 example_twenty_request
       = (Run_ok s, bs', calls)"
proof -
  let ?body = "example_body\<lparr>rq_mode := Some ''run'', rq_testCases := replicate 20 None\<rparr>"
  have allowed: "allowed (fst (rateLimit Map.empty 1000
      (''run:'' @ getClientIp (rq_headers example_twenty_request)) 30 300000))"
    by (simp add: rateLimit_def Let_def)
  have body: "rq_body example_twenty_request = Some ?body"
    by (simp add: example_twenty_request_def)
  have code: "rq_code ?body = JS_string ''def solve(input): return 4''"
    by (simp add: example_body_def)
  have nonempty: "''def solve(input): return 4'' \<noteq> []"
    by simp
  have len: "length ''def solve(input): return 4'' \<le> MAX_CODE_CHARS"
    by (simp add: MAX_CODE_CHARS_def)
  have cases: "env_casesToRun (run_env_of example_platform example_sandbox
      ''def solve(input): return 4'' ?body) \<noteq> []"
    by (simp add: run_env_of_def Let_def)
  show ?thesis
    unfolding POST_accepted [OF allowed body code nonempty len cases] Let_def
    by blast
qed

theorem POST_mode_and_cap_witness:
  "(\<exists>s bs' calls.
      POST example_platform example_sandbox Map.empty 1000 1000 42 example_request
        = (Run_ok s, bs', calls)
      \<and> mode s = ''submit'' \<and> total' s = 6 \<and> length (results s) = 6
      \<and> map hidden (results s) = [False, False, True, True, True, True]
      \<and> passedCount s = 2 \<and> \<not> allPassed s)
   \<and> (\<exists>s bs' calls.
      POST example_platform example_sandbox Map.empty 1000 1000 42 example_twenty_request
        = (Run_ok s, bs', calls)
      \<and> mode s = ''run'' \<and> total' s = 12 \<and> length (results s) = 12
      \<and> list_all (\<lambda>r. \<not> hidden r) (results s))"
proof (rule conjI)
  let ?s = "\<lparr>mode = ''submit'', passedCount = 2, total' = 6, allPassed = False,
             totalRuntimeMs = 42, results = example_results\<rparr>"
  have body: "rq_body example_request = Some example_body"
    by (simp add: example_request_def)
  have code: "rq_code example_body = JS_string ''def solve(input): return 4''"
    by (simp add: example_body_def)
  from POST_mode_and_cap [OF example_POST body code refl]
  have "mode ?s = ''submit''" and "length (results ?s) = total' ?s"
    and "\<forall>j < total' ?s. hidden (results ?s ! j) = (length (rq_testCases example_body) \<le> j)"
    by (simp_all add: example_body_def)
  then have "map hidden (results ?s) = [False, False, True, True, True, True]"
    by (simp add: example_results_def)
  then show "\<exists>s bs' calls.
      POST example_platform example_sandbox Map.empty 1000 1000 42 example_request
        = (Run_ok s, bs', calls)
      \<and> mode s = ''submit'' \<and> total' s = 6 \<and> length (results s) = 6
      \<and> map hidden (results s) = [False, False, True, True, True, True]
      \<and> passedCount s = 2 \<and> \<not> allPassed s"
    using example_POST by (intro exI [of _ ?s] exI conjI) (simp_all add: example_results_def)
next
  let ?body = "example_body\<lparr>rq_mode := Some ''run'', rq_testCases := replicate 20 None\<rparr>"
  obtain s bs' calls where post:
    "POST example_platform example_sandbox Map.empty 1000 1000 42 example_twenty_request
       = (Run_ok s, bs', calls)"
    using example_twenty_accepted by blast
  have body: "rq_body example_twenty_request = Some ?body"
    by (simp add: example_twenty_request_def)
  have code: "rq_code ?body = JS_string ''def solve(input): return 4''"
    by (simp add: example_body_def)
  note cap = POST_mode_and_cap [OF post body code refl]
  from cap have md: "mode s = ''run''"
    by simp
  from cap have len: "length (results s) = total' s"
    by blast
  from cap md have "total' s = min (length (rq_testCases ?body)) 12"
    and hid: "\<forall>j < total' s. \<not> hidden (results s ! j)"
    by blast+
  then have tot: "total' s = 12"
    by simp
  have "list_all (\<lambda>r. \<not> hidden r) (results s)"
    using hid len by (simp add: list_all_length)
  with post md len tot show "\<exists>s bs' calls.
      POST example_platform example_sandbox Map.empty 1000 1000 42 example_twenty_request
        = (Run_ok s, bs', calls)
      \<and> mode s = ''run'' \<and> total' s = 12 \<and> length (results s) = 12
      \<and> list_all (\<lambda>r. \<not> hidden r) (results s)"
    by auto
qed

text \<open>
  Claim C4. A case within the cap whose input is longer than 4000 characters gets the
  failed result with stderr \<open>Input too large.\<close>; one whose input is at most that long and
  is not a JSON text gets the failed result with stderr
  \<open>Testcase input is not valid JSON.\<close>. Both have \<open>passed = false\<close>, \<open>exitCode = 1\<close> and
  \<open>runtimeMs = 0\<close>, and no sandbox call is made for either. Every case within the cap still
  gets its result, and every other case with an acceptable input still gets its sandbox
  call.
\<close>

theorem POST_rejected_inputs:
  assumes "POST P sb bs now now' elapsed_total req = (Run_ok s, bs', calls)"
    and "rq_body req = Some body" and "rq_code body = JS_string code"
    and "e = run_env_of P sb code body"
    and "j < min (length (env_casesToRun e)) MAX_CASES_RUN"
  shows "length (results s) = min (length (env_casesToRun e)) MAX_CASES_RUN
     \<and> (length (case_input e j) > 4000 \<longrightarrow>
           results s ! j =
             \<lparr>name = case_name e j, passed = False, expectedOutput = case_expectedOutput e j,
              actualOutput = [], stderr = ''Input too large.'', exitCode = 1, runtimeMs = 0,
              hidden = case_hidden e j\<rparr>
           \<and> j \<notin> fst ` set calls)
     \<and> (length (case_input e j) \<le> 4000 \<longrightarrow> \<not> json_valid (case_input e j) \<longrightarrow>
           results s ! j =
             \<lparr>name = case_name e j, passed = False, expectedOutput = case_expectedOutput e j,
              actualOutput = [], stderr = ''Testcase input is not valid JSON.'', exitCode = 1,
              runtimeMs = 0, hidden = case_hidden e j\<rparr>
           \<and> j \<notin> fst ` set calls)
     \<and> (\<forall>k < min (length (env_casesToRun e)) MAX_CASES_RUN.
           length (case_input e k) \<le> 4000 \<longrightarrow> json_valid (case_input e k) \<longrightarrow>
           (k, env_runtime e, case_program e k) \<in> set calls)"
proof -
  note ok = POST_ok_results [OF assms(1-4)]
  have j: "j < total' s"
    using assms(5) ok(1) by simp
  have nth: "results s ! j = case_result e j"
    using assms(1-4) j by (rule POST_ok_nth)
  have no_call: "j \<notin> fst ` set calls"
    if "length (case_input e j) > MAX_INPUT_CHARS \<or> \<not> json_valid (case_input e j)"
  proof
    assume "j \<in> fst ` set calls"
    then obtain c where "c \<in> set calls" and "fst c = j"
      by auto
    with calls_member [of c e "total' s"] ok(6) that show False
      by auto
  qed
  have called: "(k, env_runtime e, case_program e k) \<in> set calls"
    if "k < total' s" "length (case_input e k) \<le> MAX_INPUT_CHARS" "json_valid (case_input e k)"
    for k
    unfolding ok(6) using that by (rule calls_contain)
  have len: "length (results s) = min (length (env_casesToRun e)) MAX_CASES_RUN"
    using ok(1,2) by simp
  have called_all: "\<forall>k < min (length (env_casesToRun e)) MAX_CASES_RUN.
           length (case_input e k) \<le> 4000 \<longrightarrow> json_valid (case_input e k) \<longrightarrow>
           (k, env_runtime e, case_program e k) \<in> set calls"
    using called ok(1) by (simp add: MAX_INPUT_CHARS_def)
  show ?thesis
    using len no_call called_all case_result_too_large [of e j]
      case_result_invalid_json [of e j]
    by (simp add: nth MAX_INPUT_CHARS_def)
qed

theorem POST_rejected_inputs_witness:
  "\<exists>s bs' calls.
     POST example_platform example_sandbox Map.empty 1000 1000 42 example_request
       = (Run_ok s, bs', calls)
     \<and> length (results s) = 6
     \<and> results s ! 4 =
         \<lparr>name = ''big'', passed = False, expectedOutput = ''4'', actualOutput = [],
          stderr = ''Input too large.'', exitCode = 1, runtimeMs = 0, hidden = True\<rparr>
     \<and> results s ! 5 =
         \<lparr>name = ''broken'', passed = False, expectedOutput = [], actualOutput = [],
          stderr = ''Testcase input is not valid JSON.'', exitCode = 1, runtimeMs = 0,
          hidden = True\<rparr>
     \<and> map fst calls = [0, 1, 2, 3]"
proof -
  let ?s = "\<lparr>mode = ''submit'', passedCount = 2, total' = 6, allPassed = False,
             totalRuntimeMs = 42, results = example_results\<rparr>"
  let ?e = "run_env_of example_platform example_sandbox ''def solve(input): return 4''
              example_body"
  have body: "rq_body example_request = Some example_body"
    by (simp add: example_request_def)
  have code: "rq_code example_body = JS_string ''def solve(input): return 4''"
    by (simp add: example_body_def)
  have n: "min (length (env_casesToRun ?e)) MAX_CASES_RUN = 6"
    unfolding example_env by (simp add: example_body_def MAX_CASES_RUN_def)
  have in4: "case_input ?e 4 = replicate 4001 CHR ''1''"
    and in5: "case_input ?e 5 = ''{nope''"
    unfolding example_env
    by (simp_all add: case_input_def case_tc_def example_body_def)
  have 4: "(4::nat) < min (length (env_casesToRun ?e)) MAX_CASES_RUN"
    and 5: "(5::nat) < min (length (env_casesToRun ?e)) MAX_CASES_RUN"
    unfolding n by simp_all
  have "stderr (results ?s ! 4) = ''Input too large.'' \<and> 4 \<notin> fst ` set example_calls"
    using POST_rejected_inputs [OF example_POST body code refl 4]
    by (simp add: in4)
  moreover
  have "stderr (results ?s ! 5) = ''Testcase input is not valid JSON.''
      \<and> 5 \<notin> fst ` set example_calls"
    using POST_rejected_inputs [OF example_POST body code refl 5]
    by (simp add: in5 json_valid_examples)
  ultimately show ?thesis
    using example_POST
    by (intro exI [of _ ?s] exI [of _ example_calls] exI conjI)
       (simp_all add: example_results_def example_calls_def)
qed

text \<open>
  Claim C9. A case whose \<open>input\<close> is absent or \<open>null\<close> runs with the input string
  \<open>null\<close>, which is a JSON text of 4 characters: it passes both input checks and the sandbox
  is called with a harness that embeds \<open>null\<close>. An absent or \<open>null\<close> \<open>expectedOutput\<close> is
  the empty string, in the result and in the comparison. An absent or \<open>null\<close> \<open>name\<close> is
  \<open>Case N\<close>, with \<open>N\<close> the index in the list of cases to run, counted from 1. A \<open>null\<close>
  element of the list is a case with all three absent.
\<close>

theorem POST_missing_fields:
  assumes "POST P sb bs now now' elapsed_total req = (Run_ok s, bs', calls)"
    and "rq_body req = Some body" and "rq_code body = JS_string code"
    and "e = run_env_of P sb code body"
    and "j < total' s"
  shows "(tc_input (case_tc e j) = None \<longrightarrow>
            case_input e j = ''null'' \<and> json_valid (case_input e j)
            \<and> length (case_input e j) \<le> MAX_INPUT_CHARS
            \<and> (j, env_runtime e, case_program e j) \<in> set calls
            \<and> case_program e j \<in> {jsHarness code ''null'' (env_functionName e),
                                     tsHarness code ''null'' (env_functionName e),
                                     pyHarness code ''null'' (env_functionName e)})
     \<and> (tc_expectedOutput (case_tc e j) = None \<longrightarrow>
            expectedOutput (results s ! j) = []
            \<and> passed (results s ! j) =
                (exitCode (results s ! j) = 0
                 \<and> normalizeOutput P (actualOutput (results s ! j)) = normalizeOutput P []))
     \<and> (tc_name (case_tc e j) = None \<longrightarrow>
            name (results s ! j) = ''Case '' @ decimal (j + 1))
     \<and> (env_casesToRun e ! j = None \<longrightarrow>
            tc_input (case_tc e j) = None \<and> tc_expectedOutput (case_tc e j) = None
            \<and> tc_name (case_tc e j) = None)"
proof -
  note ok = POST_ok_results [OF assms(1-4)]
  have nth: "results s ! j = case_result e j"
    using assms by (rule POST_ok_nth)
  have P: "env_platform e = P" and code: "env_code e = code"
    by (simp_all add: assms(4) run_env_of_def Let_def)
  have null: "json_valid ''null''" "length ''null'' \<le> MAX_INPUT_CHARS"
    by (simp_all add: json_valid_examples MAX_INPUT_CHARS_def)
  have input: "(j, env_runtime e, case_program e j) \<in> set calls"
    if "case_input e j = ''null''"
    unfolding ok(6) using assms(5) null that by (intro calls_contain) simp_all
  have prog: "case_program e j \<in> {jsHarness code ''null'' (env_functionName e),
                                     tsHarness code ''null'' (env_functionName e),
                                     pyHarness code ''null'' (env_functionName e)}"
    if "case_input e j = ''null''"
    using that by (simp add: case_program_def code)
  show ?thesis
    using input prog null case_result_passed [of e j]
    by (auto simp: nth case_result_fields P case_input_def case_expectedOutput_def
        case_name_def case_tc_def undefined_case_def)
qed

theorem POST_missing_fields_witness:
  "\<exists>s bs' calls.
     POST example_platform example_sandbox Map.empty 1000 1000 42 example_request
       = (Run_ok s, bs', calls)
     \<and> name (results s ! 2) = ''Case 3'' \<and> expectedOutput (results s ! 2) = []
     \<and> passed (results s ! 2)
     \<and> calls ! 2 = (2, \<lparr>rt_language = ''python'', rt_version = ''3.10.0''\<rparr>,
                     pyHarness ''def solve(input): return 4'' ''null'' ''solve'')"
proof -
  let ?s = "\<lparr>mode = ''submit'', passedCount = 2, total' = 6, allPassed = False,
             totalRuntimeMs = 42, results = example_results\<rparr>"
  let ?e = "run_env_of example_platform example_sandbox ''def solve(input): return 4''
              example_body"
  have body: "rq_body example_request = Some example_body"
    by (simp add: example_request_def)
  have code: "rq_code example_body = JS_string ''def solve(input): return 4''"
    by (simp add: example_body_def)
  have tc: "env_casesToRun ?e ! 2 = None"
    unfolding example_env by (simp add: example_body_def)
  have 2: "2 < total' ?s"
    by simp
  have three: "decimal (2 + 1) = ''3''"
    by (simp add: decimal.simps char_of_eq_iff)
  have "name (results ?s ! 2) = ''Case 3'' \<and> expectedOutput (results ?s ! 2) = []
      \<and> (2, env_runtime ?e, case_program ?e 2) \<in> set example_calls
      \<and> case_input ?e 2 = ''null''"
    using POST_missing_fields [OF example_POST body code refl 2] tc three
    by simp
  then show ?thesis
    using example_POST
    by (intro exI [of _ ?s] exI [of _ example_calls] exI conjI)
       (simp_all add: example_results_def example_calls_def)
qed

section \<open>Properties of the generation gateway\<close>

lemma pad_hints_from:
  "i + (3 - length t) \<le> length filler \<Longrightarrow>
   pad_hints t i = t @ take (3 - length t) (drop i filler)"
proof (induction t i rule: pad_hints.induct)
  case (1 trimmed i)
  show ?case
  proof (cases "length trimmed < 3")
    case True
    with "1.prems" have i: "i < length filler"
      by simp
    let ?t = "trimmed @ [filler ! i]"
    have "pad_hints trimmed i = pad_hints ?t (i + 1)"
      using True i by (subst pad_hints.simps) simp
    also have "\<dots> = ?t @ take (3 - length ?t) (drop (i + 1) filler)"
      using "1.IH" [OF True] True i "1.prems" by simp
    also have "\<dots> = trimmed @ take (3 - length trimmed) (drop i filler)"
    proof -
      have "drop i filler = filler ! i # drop (i + 1) filler"
        using i by (simp add: Cons_nth_drop_Suc)
      moreover have "3 - length trimmed = Suc (3 - length ?t)"
        using True by simp
      ultimately show ?thesis
        by simp
    qed
    finally show ?thesis .
  next
    case False
    then show ?thesis
      by (subst pad_hints.simps) simp
  qed
qed

lemma ensureExactlyThreeHints_eq:
  "ensureExactlyThreeHints hs =
     (let given = (case hs of None \<Rightarrow> [] | Some xs \<Rightarrow> map String_of (filter Boolean_of xs))
      in take 3 given @ take (3 - length given) filler)"
proof -
  have "pad_hints (take 3 given) 0 = take 3 given @ take (3 - length given) filler" for given
    by (subst pad_hints_from) (auto simp: filler_def min_def)
  then show ?thesis
    by (simp add: ensureExactlyThreeHints_def Let_def)
qed

lemma ensureExactlyThreeHints_length: "length (ensureExactlyThreeHints hs) = 3"
  by (simp add: ensureExactlyThreeHints_eq Let_def filler_def)

lemma pad_testCases_eq: "pad_testCases cs = cs @ map sanity_case [length cs..<2]"
proof (induction cs rule: pad_testCases.induct)
  case (1 cs)
  show ?case
  proof (cases "length cs < 2")
    case True
    have "pad_testCases cs = pad_testCases (cs @ [sanity_case (length cs)])"
      using True
      by (subst pad_testCases.simps) (simp add: sanitizeCase_def coerceString_def sanity_case_def)
    also have "\<dots> = (cs @ [sanity_case (length cs)])
        @ map sanity_case [length (cs @ [sanity_case (length cs)])..<2]"
      using True "1.IH" by (simp add: sanitizeCase_def coerceString_def sanity_case_def)
    finally show ?thesis
      using True by (simp add: upt_conv_Cons)
  next
    case False
    then show ?thesis
      by (subst pad_testCases.simps) simp
  qed
qed

lemma pad_hiddenTestCases_eq:
  "pad_hiddenTestCases cs = cs @ map hidden_sanity_case [length cs..<3]"
proof (induction cs rule: pad_hiddenTestCases.induct)
  case (1 cs)
  show ?case
  proof (cases "length cs < 3")
    case True
    have "pad_hiddenTestCases cs = pad_hiddenTestCases (cs @ [hidden_sanity_case (length cs)])"
      using True
      by (subst pad_hiddenTestCases.simps)
         (simp add: sanitizeCase_def coerceString_def hidden_sanity_case_def)
    also have "\<dots> = (cs @ [hidden_sanity_case (length cs)])
        @ map hidden_sanity_case [length (cs @ [hidden_sanity_case (length cs)])..<3]"
      using True "1.IH"
      by (simp add: sanitizeCase_def coerceString_def hidden_sanity_case_def)
    finally show ?thesis
      using True by (simp add: upt_conv_Cons)
  next
    case False
    then show ?thesis
      by (subst pad_hiddenTestCases.simps) simp
  qed
qed

lemma coerceDifficulty_range:
  "coerceDifficulty v ''beginner'' \<in> {''beginner'', ''intermediate'', ''advanced''}"
  by (simp add: coerceDifficulty_def Let_def)

lemma POST_generate_ok:
  assumes "POST_generate url_protocol model bs now now' req = (Generate_ok qs, bs')"
  shows "\<exists>body v raw.
      g_body req = Some body \<and> validateDocsUrl url_protocol (g_docsUrl body) = Inr v
      \<and> model v (normalizeLanguage (g_language body)) = Questions raw
      \<and> qs = map (\<lambda>(idx, q). normalize_question (normalizeLanguage (g_language body)) idx q)
                (enumerate 0 (take 5 raw))"
  using assms
  by (auto simp: POST_generate_def Let_def
      split: prod.splits if_splits option.splits sum.splits model_reply.splits)

lemma generated_nth:
  "i < length (take 5 raw) \<Longrightarrow>
   map (\<lambda>(idx, q). normalize_question lang idx q) (enumerate 0 (take 5 raw)) ! i
     = normalize_question lang i (raw ! i)"
  by (simp add: nth_enumerate_eq)

lemma starterLooksOk_Some:
  "starterLooksOk sc lang \<Longrightarrow> \<exists>s. sc = Some s"
  by (cases sc) (simp_all add: starterLooksOk_def Let_def split: if_splits)

lemma normalize_question_fields:
  fixes lang :: string and idx :: nat and q0 :: "raw_question option"
  defines "q \<equiv> (case q0 of None \<Rightarrow> undefined_question | Some x \<Rightarrow> x)"
  defines "given \<equiv> (case q_hints q of None \<Rightarrow> []
                      | Some xs \<Rightarrow> map String_of (filter Boolean_of xs))"
  defines "tcs \<equiv> (case q_testCases q of None \<Rightarrow> [] | Some xs \<Rightarrow> take 3 xs)"
  defines "hcs \<equiv> (case q_hiddenTestCases q of None \<Rightarrow> [] | Some xs \<Rightarrow> take 6 xs)"
  defines "nq \<equiv> normalize_question lang idx q0"
  shows "functionName nq = ''solve''"
    and "hints nq = take 3 given @ take (3 - length given) filler"
    and "length (hints nq) = 3"
    and "difficulty nq \<in> {''beginner'', ''intermediate'', ''advanced''}"
    and "difficulty nq = coerceDifficulty (q_difficulty q) ''beginner''"
    and "testCases nq =
           map (\<lambda>(k, tc). sanitizeCase tc (''Case '' @ decimal (k + 1))) (enumerate 0 tcs)
           @ map sanity_case [length tcs..<2]"
    and "hiddenTestCases nq =
           map (\<lambda>(k, tc). sanitizeCase tc (''Hidden '' @ decimal (k + 1))) (enumerate 0 hcs)
           @ map hidden_sanity_case [length hcs..<3]"
    and "2 \<le> length (testCases nq)" and "length (testCases nq) \<le> 3"
    and "3 \<le> length (hiddenTestCases nq)" and "length (hiddenTestCases nq) \<le> 6"
    and "\<not> starterLooksOk (q_starterCode q) lang \<Longrightarrow> starterCode nq = starterTemplate lang"
    and "starterLooksOk (q_starterCode q) lang \<Longrightarrow> q_starterCode q = Some (starterCode nq)"
proof -
  show "functionName nq = ''solve''"
    by (simp add: nq_def normalize_question_def Let_def)
  show "hints nq = take 3 given @ take (3 - length given) filler"
    by (simp add: nq_def normalize_question_def Let_def ensureExactlyThreeHints_eq given_def
        q_def)
  show "length (hints nq) = 3"
    by (simp add: nq_def normalize_question_def Let_def ensureExactlyThreeHints_length)
  show "difficulty nq \<in> {''beginner'', ''intermediate'', ''advanced''}"
    using coerceDifficulty_range by (simp add: nq_def normalize_question_def Let_def)
  show "difficulty nq = coerceDifficulty (q_difficulty q) ''beginner''"
    by (simp add: nq_def normalize_question_def Let_def q_def)
  show t: "testCases nq =
           map (\<lambda>(k, tc). sanitizeCase tc (''Case '' @ decimal (k + 1))) (enumerate 0 tcs)
           @ map sanity_case [length tcs..<2]"
    by (simp add: nq_def normalize_question_def Let_def pad_testCases_eq tcs_def q_def
        split: option.split)
  show h: "hiddenTestCases nq =
           map (\<lambda>(k, tc). sanitizeCase tc (''Hidden '' @ decimal (k + 1))) (enumerate 0 hcs)
           @ map hidden_sanity_case [length hcs..<3]"
    by (simp add: nq_def normalize_question_def Let_def pad_hiddenTestCases_eq hcs_def q_def
        split: option.split)
  have lt: "length tcs \<le> 3" and lh: "length hcs \<le> 6"
    by (simp_all add: tcs_def hcs_def split: option.split)
  show "2 \<le> length (testCases nq)" and "length (testCases nq) \<le> 3"
    using lt unfolding t by simp_all
  show "3 \<le> length (hiddenTestCases nq)" and "length (hiddenTestCases nq) \<le> 6"
    using lh unfolding h by simp_all
  show "starterCode nq = starterTemplate lang" if "\<not> starterLooksOk (q_starterCode q) lang"
    using that by (simp add: nq_def normalize_question_def Let_def q_def)
  show "q_starterCode q = Some (starterCode nq)" if "starterLooksOk (q_starterCode q) lang"
    using that starterLooksOk_Some [OF that]
    by (auto simp: nq_def normalize_question_def Let_def q_def coerceString_def)
qed

lemma example_POST_generate:
  "POST_generate example_url_protocol example_model Map.empty 1000 1000 example_generate_request
     = (Generate_ok [normalize_question ''python'' 0 (Some example_question),
                     normalize_question ''python'' 1 None],
        snd (rateLimit Map.empty 1000 (''gen:'' @ getClientIp (g_headers example_generate_request))
               10 300000))"
proof -
  have url: "validateDocsUrl example_url_protocol (JS_string '' https://example.com/docs '')
      = Inr ''https://example.com/docs''"
    by (simp add: validateDocsUrl_def Let_def trim_def js_whitespace_def
        example_url_protocol_def)
  have lang: "normalizeLanguage (Some ''Python'') = ''python''"
    by (simp add: normalizeLanguage_def toLowerCase_def lower_char_def Let_def char_of_eq_iff)
  show ?thesis
    by (simp add: POST_generate_def example_generate_request_def rateLimit_def Let_def url lang
        example_model_def enumerate_eq_zip upt_conv_Cons)
qed

text \<open>
  Claim C7, as stated, says that the three hints are the model's first up-to-3 hints followed
  by filler hints. The code first drops the entries that are \<open>null\<close> or empty
  (\<open>hints.filter(Boolean)\<close>): a reply whose hints are \<open>""\<close>, \<open>a\<close>, \<open>b\<close>, \<open>c\<close> is answered
  with the hints \<open>a\<close>, \<open>b\<close>, \<open>c\<close>, while the model's first three are \<open>""\<close>, \<open>a\<close>, \<open>b\<close>.
\<close>

theorem POST_generate_hints_counterexample:
  "q_hints example_question = Some [Some [], Some ''a'', Some ''b'', Some ''c'']
   \<and> hints (hd (questions_of (fst (POST_generate example_url_protocol example_model Map.empty
                1000 1000 example_generate_request)))) = [''a'', ''b'', ''c'']
   \<and> take 3 [[], ''a'', ''b'', ''c''] \<noteq> [''a'', ''b'', ''c'']"
  by (simp add: example_POST_generate questions_of_def example_question_def
      example_model_hints_def normalize_question_def Let_def ensureExactlyThreeHints_eq
      Boolean_of_def String_of_def)

text \<open>
  Claim C7, amended. When the endpoint answers 200 after a model call, it returns the
  normalisation of the first up-to-5 entries of the model's \<open>questions\<close>. Each normalized
  question has \<open>functionName = solve\<close>; exactly 3 hints, which are the first up-to-3 of the
  model's hints that are neither \<open>null\<close> nor empty, followed by the filler hints in order
  when fewer remain; a difficulty among \<open>beginner\<close>, \<open>intermediate\<close>, \<open>advanced\<close> (the
  model's, lower-cased and trimmed, or else \<open>beginner\<close>); 2 to 3 visible and 3 to 6 hidden
  test cases, which are the model's first up-to-3 (up-to-6) cases, sanitized, followed by
  synthetic \<open>null\<close> cases up to the minimum; a sanitized case has the four string fields with
  the defaults \<open>Case N\<close> or \<open>Hidden N\<close>, \<open>null\<close>, \<open>null\<close> and the empty string; and the
  starter code is the model's when it has the marker of the language and the template of the
  language otherwise.
\<close>

theorem POST_generate_normalized:
  assumes "POST_generate url_protocol model bs now now' req = (Generate_ok qs, bs')"
    and "g_body req = Some body"
    and "lang = normalizeLanguage (g_language body)"
    and "validateDocsUrl url_protocol (g_docsUrl body) = Inr v"
    and "model v lang = Questions raw"
  shows "lang \<in> {''python'', ''typescript'', ''javascript''}
      \<and> length qs = min 5 (length raw)
      \<and> (\<forall>i < length qs.
           (let q = (case raw ! i of None \<Rightarrow> undefined_question | Some x \<Rightarrow> x);
                given = (case q_hints q of None \<Rightarrow> []
                         | Some xs \<Rightarrow> map String_of (filter Boolean_of xs));
                tcs = (case q_testCases q of None \<Rightarrow> [] | Some xs \<Rightarrow> take 3 xs);
                hcs = (case q_hiddenTestCases q of None \<Rightarrow> [] | Some xs \<Rightarrow> take 6 xs);
                nq = qs ! i
            in functionName nq = ''solve''
               \<and> hints nq = take 3 given @ take (3 - length given) filler
               \<and> length (hints nq) = 3
               \<and> difficulty nq \<in> {''beginner'', ''intermediate'', ''advanced''}
               \<and> difficulty nq = coerceDifficulty (q_difficulty q) ''beginner''
               \<and> testCases nq =
                   map (\<lambda>(k, tc). sanitizeCase tc (''Case '' @ decimal (k + 1))) (enumerate 0 tcs)
                   @ map sanity_case [length tcs..<2]
               \<and> hiddenTestCases nq =
                   map (\<lambda>(k, tc). sanitizeCase tc (''Hidden '' @ decimal (k + 1)))
                     (enumerate 0 hcs)
                   @ map hidden_sanity_case [length hcs..<3]
               \<and> 2 \<le> length (testCases nq) \<and> length (testCases nq) \<le> 3
               \<and> 3 \<le> length (hiddenTestCases nq) \<and> length (hiddenTestCases nq) \<le> 6
               \<and> (if starterLooksOk (q_starterCode q) lang
                   then q_starterCode q = Some (starterCode nq)
                   else starterCode nq = starterTemplate lang)))
      \<and> (\<forall>tc fallbackName.
           sanitizeCase (Some tc) fallbackName =
             \<lparr>sc_name = (case rc_name tc of None \<Rightarrow> fallbackName | Some x \<Rightarrow> x),
              sc_input = (case rc_input tc of None \<Rightarrow> ''null'' | Some x \<Rightarrow> x),
              sc_expectedOutput = (case rc_expectedOutput tc of None \<Rightarrow> ''null'' | Some x \<Rightarrow> x),
              sc_explanation = (case rc_explanation tc of None \<Rightarrow> [] | Some x \<Rightarrow> x)\<rparr>
           \<and> sanitizeCase None fallbackName =
             \<lparr>sc_name = fallbackName, sc_input = ''null'', sc_expectedOutput = ''null'',
              sc_explanation = []\<rparr>)"
proof -
  have raw: "qs = map (\<lambda>(idx, q). normalize_question lang idx q) (enumerate 0 (take 5 raw))"
    using POST_generate_ok [OF assms(1)] assms(2-5) by auto
  have lang: "lang \<in> {''python'', ''typescript'', ''javascript''}"
    by (simp add: assms(3) normalizeLanguage_def Let_def)
  have len: "length qs = min 5 (length raw)"
    by (simp add: raw min.commute)
  have nth: "qs ! i = normalize_question lang i (raw ! i)" if "i < length qs" for i
    using that unfolding raw by (simp add: nth_enumerate_eq)
  have sanitize: "\<forall>tc fallbackName.
           sanitizeCase (Some tc) fallbackName =
             \<lparr>sc_name = (case rc_name tc of None \<Rightarrow> fallbackName | Some x \<Rightarrow> x),
              sc_input = (case rc_input tc of None \<Rightarrow> ''null'' | Some x \<Rightarrow> x),
              sc_expectedOutput = (case rc_expectedOutput tc of None \<Rightarrow> ''null'' | Some x \<Rightarrow> x),
              sc_explanation = (case rc_explanation tc of None \<Rightarrow> [] | Some x \<Rightarrow> x)\<rparr>
           \<and> sanitizeCase None fallbackName =
             \<lparr>sc_name = fallbackName, sc_input = ''null'', sc_expectedOutput = ''null'',
              sc_explanation = []\<rparr>"
    by (simp add: sanitizeCase_def coerceString_def Let_def)
  show ?thesis
    apply (intro conjI lang len sanitize allI impI)
    apply (simp only: Let_def nth)
    apply (intro conjI normalize_question_fields)
    apply (simp add: normalize_question_fields(12,13))
    done
qed

theorem POST_generate_normalized_witness:
  "\<exists>qs bs'.
     POST_generate example_url_protocol example_model Map.empty 1000 1000 example_generate_request
       = (Generate_ok qs, bs')
     \<and> length qs = 2
     \<and> functionName (qs ! 0) = ''solve''
     \<and> hints (qs ! 0) = [''a'', ''b'', ''c'']
     \<and> difficulty (qs ! 0) = ''advanced''
     \<and> starterCode (qs ! 0) = starterTemplate ''python''
     \<and> map sc_name (testCases (qs ! 0)) = [''Case 1'', ''Case 2'']
     \<and> map sc_name (hiddenTestCases (qs ! 0)) = [''Hidden 1'', ''Hidden 2'', ''Hidden 3'']
     \<and> hints (qs ! 1) = filler
     \<and> difficulty (qs ! 1) = ''beginner''"
proof -
  let ?qs = "[normalize_question ''python'' 0 (Some example_question),
              normalize_question ''python'' 1 None]"
  have body: "g_body example_generate_request
      = Some \<lparr>g_docsUrl = JS_string '' https://example.com/docs '', g_language = Some ''Python''\<rparr>"
    by (simp add: example_generate_request_def)
  have lang: "''python'' = normalizeLanguage (g_language
      \<lparr>g_docsUrl = JS_string '' https://example.com/docs '', g_language = Some ''Python''\<rparr>)"
    by (simp add: normalizeLanguage_def toLowerCase_def lower_char_def Let_def char_of_eq_iff)
  have url: "validateDocsUrl example_url_protocol (g_docsUrl
      \<lparr>g_docsUrl = JS_string '' https://example.com/docs '', g_language = Some ''Python''\<rparr>)
      = Inr ''https://example.com/docs''"
    by (simp add: validateDocsUrl_def Let_def trim_def js_whitespace_def
        example_url_protocol_def)
  have model: "example_model ''https://example.com/docs'' ''python''
      = Questions [Some example_question, None]"
    by (simp add: example_model_def)
  note facts = POST_generate_normalized [OF example_POST_generate body lang url model]
  have numerals: "decimal 1 = ''1''" "decimal 2 = ''2''" "decimal 3 = ''3''"
    by (simp_all add: decimal.simps char_of_eq_iff)
  then have names: "decimal (Suc 0) = ''1''" "decimal (Suc (Suc 0)) = ''2''"
    "decimal (Suc (Suc (Suc 0))) = ''3''"
    by (simp_all add: numeral_2_eq_2 numeral_3_eq_3)
  have looks: "\<not> starterLooksOk (Some ''export function solve(input) { return 0; }'') ''python''"
    by (simp add: starterLooksOk_def Let_def starts_with_def)
  have diff: "coerceDifficulty (Some '' Advanced '') ''beginner'' = ''advanced''"
    "coerceDifficulty None ''beginner'' = ''beginner''"
    by (simp_all add: coerceDifficulty_def Let_def toLowerCase_def lower_char_def trim_def
        js_whitespace_def char_of_eq_iff)
  note per = facts [THEN conjunct2, THEN conjunct2, THEN conjunct1, rule_format]
  have i0: "0 < length ?qs" and i1: "1 < length ?qs"
    by simp_all
  note ev = Let_def example_question_def example_model_hints_def Boolean_of_def
    String_of_def looks diff sanity_case_def hidden_sanity_case_def upt_conv_Cons names
    sanitizeCase_def coerceString_def enumerate_eq_zip
  from per [OF i0] have a: "hints (?qs ! 0) = [''a'', ''b'', ''c'']"
    by (simp add: ev)
  from per [OF i0] have b: "difficulty (?qs ! 0) = ''advanced''"
    by (simp add: ev)
  from per [OF i0] have c: "starterCode (?qs ! 0) = starterTemplate ''python''"
    by (simp add: ev)
  from per [OF i0] have d: "map sc_name (testCases (?qs ! 0)) = [''Case 1'', ''Case 2'']"
    by (simp add: ev)
  from per [OF i0] have e:
    "map sc_name (hiddenTestCases (?qs ! 0)) = [''Hidden 1'', ''Hidden 2'', ''Hidden 3'']"
    by (simp add: ev)
  from per [OF i0] have f: "functionName (?qs ! 0) = ''solve''"
    by (simp add: ev)
  note 0 = a b c d e f
  from per [OF i1] have 1: "hints (?qs ! 1) = filler" "difficulty (?qs ! 1) = ''beginner''"
    by (simp_all add: Let_def undefined_question_def diff filler_def)
  from 0 1 show ?thesis
    using example_POST_generate by (intro exI [of _ ?qs] exI conjI) simp_all
qed

section \<open>Properties of the editor page\<close>

lemma includes_str_subset: "includes_str s sub \<Longrightarrow> set sub \<subseteq> set s"
proof (induction s)
  case Nil
  then show ?case by simp
next
  case (Cons c cs)
  show ?case
  proof (cases "starts_with sub (c # cs)")
    case True
    then have "sub = take (length sub) (c # cs)"
      by (simp add: starts_with_def)
    then have "set sub \<subseteq> set (c # cs)"
      using set_take_subset [of "length sub" "c # cs"] by simp
    then show ?thesis .
  next
    case False
    with Cons show ?thesis
      by auto
  qed
qed

lemma trim_Nil_whitespace: "trim s = [] \<Longrightarrow> c \<in> set s \<Longrightarrow> js_whitespace c"
proof -
  assume empty: "trim s = []" and c: "c \<in> set s"
  have all_ws: "\<forall>x \<in> set (dropWhile js_whitespace s). js_whitespace x"
    using empty by (simp add: trim_def dropWhile_eq_Nil_conv)
  have "dropWhile js_whitespace s = []"
  proof (cases "dropWhile js_whitespace s")
    case Nil
    then show ?thesis .
  next
    case (Cons x xs)
    then have "\<not> js_whitespace x"
      using hd_dropWhile [of js_whitespace s] by simp
    moreover have "js_whitespace x"
      using all_ws Cons by simp
    ultimately show ?thesis
      by simp
  qed
  then show "js_whitespace c"
    using c by (simp add: dropWhile_eq_Nil_conv)
qed

lemma marker_not_blank:
  assumes "includes_str sc marker" and "x \<in> set marker" and "\<not> js_whitespace x"
  shows "trim sc \<noteq> []"
proof
  assume "trim sc = []"
  moreover have "x \<in> set sc"
    using includes_str_subset [OF assms(1)] assms(2) by auto
  ultimately have "js_whitespace x"
    by (rule trim_Nil_whitespace)
  with assms(3) show False
    by simp
qed

lemma python_marker_not_blank:
  assumes "includes_str sc ''def solve''"
  shows "trim sc \<noteq> []"
proof -
  have "CHR ''d'' \<in> set ''def solve''" and "\<not> js_whitespace CHR ''d''"
    by (simp_all add: js_whitespace_def)
  with assms show ?thesis
    by (rule marker_not_blank)
qed

text \<open>
  Claim C8. When an exercise is selected, the effect on the selected exercise and language
  sets the editor text to the exercise's starter code if that starter code contains the
  marker of the selected language (\<open>def solve\<close> for \<open>python\<close>; \<open>export function solve\<close> or
  \<open>function solve\<close> for any other language) and is not blank, and to the default scaffold
  of the language otherwise. Under \<open>python\<close>, a starter code with \<open>def solve\<close> is used as
  it is, and a starter code with \<open>export function solve\<close> and without \<open>def solve\<close> is
  replaced by the Python scaffold.
\<close>

theorem sync_starter_code_rule:
  "sync_starter_code (Some starter) language code =
     (let sc = (case starter of None \<Rightarrow> [] | Some s \<Rightarrow> s);
          marker = (if language = ''python'' then includes_str sc ''def solve''
                    else includes_str sc ''export function solve''
                         \<or> includes_str sc ''function solve'')
      in if marker \<and> trim sc \<noteq> [] then sc else defaultStarter language)
   \<and> (includes_str sc ''def solve'' \<longrightarrow>
        sync_starter_code (Some (Some sc)) ''python'' code = sc)
   \<and> (includes_str sc ''export function solve'' \<longrightarrow> \<not> includes_str sc ''def solve'' \<longrightarrow>
        sync_starter_code (Some (Some sc)) ''python'' code = defaultStarter ''python'')
   \<and> includes_str (defaultStarter ''python'') ''def solve''
   \<and> includes_str (defaultStarter ''javascript'') ''export function solve''
   \<and> includes_str (defaultStarter ''typescript'') ''export function solve''"
proof -
  have py: "includes_str (defaultStarter ''python'') ''def solve''"
    and js: "includes_str (defaultStarter ''javascript'') ''export function solve''"
    and ts: "includes_str (defaultStarter ''typescript'') ''export function solve''"
    by (simp_all add: defaultStarter_def text_lines_def starts_with_def)
  show ?thesis
    using python_marker_not_blank [of sc] py js ts
    by (simp add: sync_starter_code_def starterMatchesLanguage_def Let_def)
qed

theorem sync_starter_code_rule_witness:
  "sync_starter_code (Some (Some ''export function solve(input) { return 1; }''))
      ''python'' ''old text'' = defaultStarter ''python''
   \<and> sync_starter_code (Some (Some ''def solve(input): return 1'')) ''python'' ''old text''
       = ''def solve(input): return 1''
   \<and> sync_starter_code (Some (Some ''export function solve(input) { return 1; }''))
      ''typescript'' ''old text'' = ''export function solve(input) { return 1; }''
   \<and> sync_starter_code (Some None) ''javascript'' ''old text'' = defaultStarter ''javascript''"
proof -
  have js: "includes_str ''export function solve(input) { return 1; }'' ''export function solve''"
    and not_py: "\<not> includes_str ''export function solve(input) { return 1; }'' ''def solve''"
    and py: "includes_str ''def solve(input): return 1'' ''def solve''"
    by (simp_all add: starts_with_def)
  have blank: "trim ''export function solve(input) { return 1; }'' \<noteq> []"
    by (simp add: trim_def js_whitespace_def)
  have w1: "sync_starter_code (Some (Some ''export function solve(input) { return 1; }''))
      ''python'' ''old text'' = defaultStarter ''python''"
    using sync_starter_code_rule
      [of None "''python''" "''old text''" "''export function solve(input) { return 1; }''",
        THEN conjunct2, THEN conjunct2, THEN conjunct1] js not_py
    by blast
  have w2: "sync_starter_code (Some (Some ''def solve(input): return 1'')) ''python'' ''old text''
       = ''def solve(input): return 1''"
    using sync_starter_code_rule
      [of None "''python''" "''old text''" "''def solve(input): return 1''",
        THEN conjunct2, THEN conjunct1] py
    by blast
  have w3: "sync_starter_code (Some (Some ''export function solve(input) { return 1; }''))
      ''typescript'' ''old text'' = ''export function solve(input) { return 1; }''"
    unfolding sync_starter_code_rule
      [of "Some ''export function solve(input) { return 1; }''" "''typescript''" "''old text''"
        "[]", THEN conjunct1]
    using js blank by (simp add: Let_def)
  have w4: "sync_starter_code (Some None) ''javascript'' ''old text''
      = defaultStarter ''javascript''"
    unfolding sync_starter_code_rule
      [of None "''javascript''" "''old text''" "[]", THEN conjunct1]
    by (simp add: Let_def)
  from w1 w2 w3 w4 show ?thesis
    by blast
qed

section \<open>Properties of normalizeOutput\<close>

subsection \<open>Trimming\<close>







subsection \<open>Decimal digits\<close>

lemma is_digit_char_of: "d < 10 \<Longrightarrow> is_digit (char_of (48 + d :: nat))"
  by (simp add: is_digit_def)

lemma digit_value_char_of: "d < 10 \<Longrightarrow> (of_char (char_of (48 + d :: nat)) :: nat) - 48 = d"
  by simp

lemma decimal_digits: "list_all is_digit (decimal n)"
proof (induction n rule: decimal.induct)
  case (1 n)
  show ?case
  proof (cases "n < 10")
    case True
    then show ?thesis
      by (subst decimal.simps) (simp add: is_digit_char_of)
  next
    case False
    then show ?thesis
      using "1.IH" by (subst decimal.simps) (simp add: is_digit_char_of)
  qed
qed

lemma decimal_not_Nil: "decimal n \<noteq> []"
  by (subst decimal.simps) simp



lemma decimal_hd_digit: "is_digit (hd (decimal n))"
  using decimal_digits [of n] decimal_not_Nil [of n] by (cases "decimal n") simp_all


lemma is_digit_not_whitespace: "is_digit c \<Longrightarrow> \<not> js_whitespace c"
  by (auto simp: is_digit_def js_whitespace_def)

subsection \<open>The numeric branch\<close>

lemma starts_with_single: "starts_with [c] t = (t \<noteq> [] \<and> hd t = c)"
  by (cases t) (auto simp: starts_with_def)



lemma takeWhile_all: "list_all Q xs \<Longrightarrow> takeWhile Q xs = xs"
  by (induction xs) simp_all

lemma dropWhile_all: "list_all Q xs \<Longrightarrow> dropWhile Q xs = []"
  by (induction xs) simp_all

lemma not_minus_digit: "is_digit c \<Longrightarrow> c \<noteq> CHR ''-''"
  by (auto simp: is_digit_def)

lemma decimal_not_minus: "\<not> starts_with ''-'' (decimal n)"
  using decimal_hd_digit [of n] not_minus_digit by (auto simp: starts_with_single)

lemma starts_with_minus_Cons: "starts_with ''-'' (CHR ''-'' # t)"
  by (simp add: starts_with_def)

lemma decimal_takeWhile: "takeWhile is_digit (decimal n) = decimal n"
  by (rule takeWhile_all) (rule decimal_digits)

lemma decimal_dropWhile: "dropWhile is_digit (decimal n) = []"
  by (rule dropWhile_all) (rule decimal_digits)

lemma numeric_pattern_decimal:
  "numeric_pattern (decimal n)" "numeric_pattern (CHR ''-'' # decimal n)"
  unfolding numeric_pattern_def Let_def
  by (simp_all only: decimal_not_minus starts_with_minus_Cons if_True if_False list.sel
      decimal_takeWhile decimal_dropWhile decimal_not_Nil not_False_eq_True simp_thms)







subsection \<open>The JSON branch\<close>





lemma literals_trimmed:
  "trim ''null'' = ''null''" "trim ''true'' = ''true''" "trim ''false'' = ''false''"
  by (simp_all add: trim_def js_whitespace_def)












end
